theory Spec2Isabelle
  imports Main
begin

section \<open>JavaScript values\<close>

text \<open>
  The plugin is TypeScript. A JavaScript string is a sequence of UTF-16 code units; a
  \<^typ>\<open>char\<close> of this development stands for one code unit below 256, so \<open>length\<close>,
  \<open>take\<close> and the character classes count what \<open>String.prototype.length\<close>,
  \<open>substring\<close> and the regular expressions of the source count. An optional or
  nullable field is an \<open>option\<close>; a thrown exception is the left summand of a result.
\<close>

datatype js_error =
    Error string
  | RangeError string
  | TypeError string
  | URIError string

text \<open>\<open>error.message\<close>, and the idiom \<open>error.message || "default"\<close>.\<close>

fun error_message :: "js_error \<Rightarrow> string" where
  "error_message (Error m) = m"
| "error_message (RangeError m) = m"
| "error_message (TypeError m) = m"
| "error_message (URIError m) = m"

definition message_or :: "js_error \<Rightarrow> string \<Rightarrow> string" where
  "message_or e dflt = (if error_message e = [] then dflt else error_message e)"

text \<open>Truthiness of a possibly missing string: \<open>undefined\<close>, \<open>null\<close> and \<open>""\<close> are falsy.\<close>

fun truthy :: "string option \<Rightarrow> bool" where
  "truthy None = False"
| "truthy (Some s) = (s \<noteq> [])"

text \<open>
  The result of \<open>Date.prototype.getTime\<close>: a number of milliseconds, or \<open>NaN\<close> for an
  invalid date. \<open>!t\<close> holds for \<open>0\<close> and for \<open>NaN\<close>; every comparison with \<open>NaN\<close>
  is false.
\<close>

datatype timeval = NaN | Ms int

fun falsy_time :: "timeval \<Rightarrow> bool" where
  "falsy_time NaN = True"
| "falsy_time (Ms t) = (t = 0)"

fun time_gt :: "timeval \<Rightarrow> timeval \<Rightarrow> bool" where
  "time_gt (Ms a) (Ms b) = (a > b)"
| "time_gt _ _ = False"

text \<open>White space as \<open>\s\<close> and \<open>String.prototype.trim\<close> read it, among the code units below 256.\<close>

definition isWhiteSpace :: "char \<Rightarrow> bool" where
  "isWhiteSpace c =
     (c \<in> set [CHR 0x09, CHR 0x0A, CHR 0x0B, CHR 0x0C, CHR 0x0D, CHR 0x20, CHR 0xA0])"

text \<open>\<open>s.replace(/p+/g, "-")\<close>: every maximal run of characters of the class becomes one dash.\<close>

primrec replaceRuns :: "(char \<Rightarrow> bool) \<Rightarrow> bool \<Rightarrow> string \<Rightarrow> string" where
  "replaceRuns p inRun [] = []"
| "replaceRuns p inRun (c # cs) =
     (if p c then (if inRun then replaceRuns p True cs else CHR ''-'' # replaceRuns p True cs)
      else c # replaceRuns p False cs)"

text \<open>\<open>s.replace(/p+$/, "")\<close> and \<open>s.replace(/^p+|p+$/g, "")\<close>.\<close>

definition trimEnd :: "(char \<Rightarrow> bool) \<Rightarrow> string \<Rightarrow> string" where
  "trimEnd p s = rev (dropWhile p (rev s))"

definition trimBoth :: "(char \<Rightarrow> bool) \<Rightarrow> string \<Rightarrow> string" where
  "trimBoth p s = trimEnd p (dropWhile p s)"

definition trim :: "string \<Rightarrow> string" where
  "trim s = trimBoth isWhiteSpace s"

text \<open>\<open>s.split(sep)\<close> for a one-character separator: never the empty array.\<close>

primrec splitOn :: "char \<Rightarrow> string \<Rightarrow> string list" where
  "splitOn sep [] = [[]]"
| "splitOn sep (c # cs) =
     (if c = sep then [] # splitOn sep cs
      else (case splitOn sep cs of [] \<Rightarrow> [[c]] | seg # segs \<Rightarrow> (c # seg) # segs))"

text \<open>\<open>s.startsWith(p)\<close>.\<close>

definition startsWith :: "string \<Rightarrow> string \<Rightarrow> bool" where
  "startsWith s p = (take (length p) s = p)"

text \<open>Decimal rendering of a counter in a template string.\<close>

fun decimal :: "nat \<Rightarrow> string" where
  "decimal n =
     (if n < 10 then [char_of (48 + n)] else decimal (n div 10) @ [char_of (48 + n mod 10)])"

section \<open>Built-ins of the platform\<close>

text \<open>
  \<open>Date\<close>, \<open>URL\<close>, \<open>decodeURIComponent\<close>, \<open>String.prototype.toLowerCase\<close> and
  \<open>Object.prototype\<close> belong to the JavaScript engine, not to the plugin (the date
  parser even differs between engines). They are parameters of the model:
  \<^item> \<open>date_toISOString s\<close> is \<open>new Date(s).toISOString()\<close>, \<open>None\<close> when it throws
    \<open>RangeError\<close> (an invalid date);
  \<^item> \<open>date_getTime s\<close> is \<open>new Date(s).getTime()\<close>;
  \<^item> \<open>url_parse s\<close> is \<open>new URL(s)\<close>, \<open>None\<close> when it throws \<open>TypeError\<close>;
  \<^item> \<open>decodeURIComponent s\<close> is \<open>None\<close> when it throws \<open>URIError\<close>;
  \<^item> \<open>objectPrototype k\<close> is the member that every object literal inherits under the
    name \<open>k\<close> (\<open>constructor\<close>, \<open>__proto__\<close>, \<open>toString\<close>, ...), as a template string
    renders it (the source text of a function, \<open>[object Object]\<close> for an object);
    \<open>None\<close> when \<open>Object.prototype\<close> has no member of that name. The members are
    functions and objects, all of them truthy.
\<close>

record url =
  origin :: string
  hostname :: string
  pathname :: string

record platform =
  date_toISOString :: "string \<Rightarrow> string option"
  date_getTime :: "string \<Rightarrow> timeval"
  url_parse :: "string \<Rightarrow> url option"
  decodeURIComponent :: "string \<Rightarrow> string option"
  toLowerCase :: "string \<Rightarrow> string"
  objectPrototype :: "string \<Rightarrow> string option"

section \<open>Data model (types.ts, constants.ts)\<close>

datatype attached_by = Ai | Human

record KarakeepTag =
  tag_id :: string
  name :: string
  attachedBy :: attached_by

datatype content_type = Link | Text | Asset | Unknown

datatype asset_type = Image | Pdf

record KarakeepBookmarkContent =
  c_type :: content_type
  c_url :: "string option"
  c_title :: "string option"
  description :: "string option"
  imageUrl :: "string option"
  imageAssetId :: "string option"
  screenshotAssetId :: "string option"
  fullPageArchiveAssetId :: "string option"
  videoAssetId :: "string option"
  favicon :: "string option"
  htmlContent :: "string option"
  crawledAt :: "string option"
  c_text :: "string option"
  sourceUrl :: "string option"
  assetType :: "asset_type option"
  assetId :: "string option"
  fileName :: "string option"

datatype tagging_status = Success | Failure | Pending

record KarakeepBookmark =
  b_id :: string
  createdAt :: string
  modifiedAt :: "string option"
  title :: "string option"
  archived :: bool
  favourited :: bool
  taggingStatus :: "tagging_status option"
  b_note :: "string option"
  summary :: "string option"
  tags :: "KarakeepTag list"
  content :: KarakeepBookmarkContent

record KarakeepResponse =
  bookmarks :: "KarakeepBookmark list"
  total :: nat
  nextCursor :: "string option"

record KarakeepSyncSettings =
  apiKey :: string
  apiEndpoint :: string
  syncNotebookId :: "string option"
  syncIntervalMinutes :: int
  lastSyncTimestamp :: int
  updateExistingFiles :: bool
  excludeArchived :: bool
  onlyFavorites :: bool
  excludedTags :: "string list"
  downloadAssets :: bool

datatype status = Created | Updated | Skipped | Skipped_filtered | Errored

record ProcessResult =
  status :: status
  message :: "string option"

definition ATTR_PREFIX :: string where
  "ATTR_PREFIX = ''custom-Karakeep-''"

definition ATTR_KARAKEEP_ID :: string where
  "ATTR_KARAKEEP_ID = ATTR_PREFIX @ ''id''"

definition ATTR_MODIFIED :: string where
  "ATTR_MODIFIED = ATTR_PREFIX @ ''modified''"

section \<open>utils.ts\<close>

text \<open>The character class of the first \<open>replace\<close> of \<open>sanitizeSiYuanPath\<close>.\<close>

definition unsafePathChars :: "char list" where
  "unsafePathChars =
     [CHR 0x5C] @ ''/:*?'' @ [CHR 0x22] @ ''<>|#%^&{}[]'' @ [CHR 0x0A, CHR 0x0D, CHR 0x09]"

text \<open>
  The local \<open>sanitizedTitle\<close> of \<open>sanitizeSiYuanPath\<close>: the five chained \<open>replace\<close>
  calls, in their order: the first three (\<open>replacedTitle\<close>), the fourth, which trims
  the dashes (\<open>dashTrimmed\<close>), the fifth, which trims the dots (\<open>sanitizeChars\<close>);
  then the cut at \<open>maxTitleLength = 60\<close> (\<open>sanitizeTitle\<close>).
\<close>

definition replacedTitle :: "string \<Rightarrow> string" where
  "replacedTitle t =
     (let s1 = map (\<lambda>c. if c \<in> set unsafePathChars then CHR ''-'' else c) t;
          s2 = replaceRuns isWhiteSpace False s1
      in replaceRuns (\<lambda>c. c = CHR ''-'') False s2)"

definition dashTrimmed :: "string \<Rightarrow> string" where
  "dashTrimmed t = trimBoth (\<lambda>c. c = CHR ''-'') (replacedTitle t)"

definition sanitizeChars :: "string \<Rightarrow> string" where
  "sanitizeChars t = trimBoth (\<lambda>c. c = CHR ''.'') (dashTrimmed t)"

definition sanitizeTitle :: "string \<Rightarrow> string" where
  "sanitizeTitle t =
     (let s = sanitizeChars t
      in if length s > 60 then trimEnd (\<lambda>c. c = CHR ''-'') (take 60 s) else s)"

text \<open>\<open>new Date(createdAt).toISOString().split("T")[0]\<close>.\<close>

definition isoDay :: "platform \<Rightarrow> string \<Rightarrow> js_error + string" where
  "isoDay P created =
     (case date_toISOString P created of
        None \<Rightarrow> Inl (RangeError ''Invalid time value'')
      | Some isoStr \<Rightarrow> Inr (hd (splitOn (CHR ''T'') isoStr)))"

definition sanitizeSiYuanPath :: "platform \<Rightarrow> string \<Rightarrow> string \<Rightarrow> js_error + string" where
  "sanitizeSiYuanPath P t created =
     (case isoDay P created of
        Inl e \<Rightarrow> Inl e
      | Inr dateStr \<Rightarrow>
          (let sanitizedTitle = sanitizeTitle t;
               sanitizedTitle' =
                 (if sanitizedTitle = [] then ''bookmark-'' @ dateStr else sanitizedTitle)
           in Inr (dateStr @ ''-'' @ sanitizedTitle')))"

text \<open>
  \<open>getExtensionFromContentType\<close>. \<open>mimeMap\<close> is an object literal, so \<open>mimeMap[k]\<close> is
  the value of one of its six own keys, or else the member that the literal inherits
  from \<open>Object.prototype\<close> under that name, or else \<open>undefined\<close>. An inherited member
  is truthy and is returned as the extension; its only use is in the template string
  of the file name, which renders it.
\<close>

definition mimeMap :: "(string \<times> string) list" where
  "mimeMap =
     [(''image/jpeg'', ''jpg''), (''image/png'', ''png''), (''image/gif'', ''gif''),
      (''image/webp'', ''webp''), (''image/svg+xml'', ''svg''), (''application/pdf'', ''pdf'')]"

definition mimeMapMember :: "platform \<Rightarrow> string \<Rightarrow> string option" where
  "mimeMapMember P k =
     (case map_of mimeMap k of Some e \<Rightarrow> Some e | None \<Rightarrow> objectPrototype P k)"

definition getExtensionFromContentType :: "platform \<Rightarrow> string \<Rightarrow> string \<Rightarrow> string" where
  "getExtensionFromContentType P contentType fallbackFileName =
     (let mainType = toLowerCase P (trim (hd (splitOn (CHR '';'') contentType))) in
      case mimeMapMember P mainType of
        Some e \<Rightarrow> e
      | None \<Rightarrow>
          if fallbackFileName \<noteq> [] \<and> CHR ''.'' \<in> set fallbackFileName then
            (let ext = last (splitOn (CHR ''.'') fallbackFileName)
             in if ext \<noteq> [] \<and> length ext < 5 then toLowerCase P ext else ''asset'')
          else ''asset'')"

section \<open>formatting.ts\<close>

text \<open>\<open>x?.trim()\<close> as a condition and as the value returned: the trimmed string when it is not empty.\<close>

definition nonBlank :: "string option \<Rightarrow> string option" where
  "nonBlank x = (case x of None \<Rightarrow> None | Some s \<Rightarrow> if trim s = [] then None else Some (trim s))"

text \<open>\<open>Array.prototype.pop\<close>: the last element (\<open>undefined\<close> on the empty array) and the rest.\<close>

definition pop :: "string list \<Rightarrow> string option \<times> string list" where
  "pop xs = (if xs = [] then (None, []) else (Some (last xs), butlast xs))"

text \<open>\<open>pathSegments.pop() || pathSegments.pop()\<close>, as the condition \<open>if (lastSegment)\<close> reads it.\<close>

definition lastSegment :: "string list \<Rightarrow> string option" where
  "lastSegment pathSegments =
     (case pop pathSegments of
        (a, rest) \<Rightarrow> (let r = (if truthy a then a else fst (pop rest)) in if truthy r then r else None))"

text \<open>
  \<open>s.replace(/\.[^/.]+$/, "")\<close>: the last dot and what follows it are removed when at
  least one character follows and none of them is a slash.
\<close>

definition stripExtension :: "string \<Rightarrow> string" where
  "stripExtension s =
     (let r = rev s;
          ext = takeWhile (\<lambda>c. c \<noteq> CHR ''/'' \<and> c \<noteq> CHR ''.'') r;
          rest = dropWhile (\<lambda>c. c \<noteq> CHR ''/'' \<and> c \<noteq> CHR ''.'') r
      in case rest of
           [] \<Rightarrow> s
         | c # front \<Rightarrow> if c = CHR ''.'' \<and> ext \<noteq> [] then rev front else s)"

text \<open>\<open>hostname.replace(/^www\./, "")\<close>.\<close>

definition stripWww :: "string \<Rightarrow> string" where
  "stripWww h = (if startsWith h ''www.'' then drop 4 h else h)"

text \<open>\<open>decodedSegment.replace(/\.[^/.]+$/, "").replace(/[-_]/g, " ").trim()\<close>.\<close>

definition pathTitle :: "string \<Rightarrow> string" where
  "pathTitle decodedSegment =
     trim (map (\<lambda>c. if c = CHR ''-'' \<or> c = CHR ''_'' then CHR '' '' else c)
             (stripExtension decodedSegment))"

text \<open>The \<open>try\<close> block of the link branch; its \<open>catch\<close> returns \<open>content.url.substring(0, 100)\<close>.\<close>

definition linkTitleFromUrl :: "platform \<Rightarrow> string \<Rightarrow> string" where
  "linkTitleFromUrl P u =
     (case url_parse P u of
        None \<Rightarrow> take 100 u
      | Some parsed \<Rightarrow>
          (case lastSegment (splitOn (CHR ''/'') (pathname parsed)) of
             None \<Rightarrow> stripWww (hostname parsed)
           | Some seg \<Rightarrow>
               (case decodeURIComponent P seg of
                  None \<Rightarrow> take 100 u
                | Some decodedSegment \<Rightarrow>
                    (let t = pathTitle decodedSegment
                     in if t \<noteq> [] then t else stripWww (hostname parsed)))))"

text \<open>The \<open>try\<close> block of the asset branch.\<close>

definition assetTitleFromUrl :: "platform \<Rightarrow> string \<Rightarrow> string" where
  "assetTitleFromUrl P u =
     (case url_parse P u of
        None \<Rightarrow> take 100 u
      | Some parsed \<Rightarrow>
          (case lastSegment (splitOn (CHR ''/'') (pathname parsed)) of
             None \<Rightarrow> hostname parsed
           | Some seg \<Rightarrow>
               (case decodeURIComponent P seg of
                  None \<Rightarrow> take 100 u
                | Some decodedSegment \<Rightarrow> decodedSegment)))"

text \<open>The last two lines of \<open>getBookmarkTitle\<close>.\<close>

definition fallbackTitle :: "platform \<Rightarrow> KarakeepBookmark \<Rightarrow> js_error + string" where
  "fallbackTitle P b =
     (case isoDay P (createdAt b) of
        Inl e \<Rightarrow> Inl e
      | Inr dateStr \<Rightarrow> Inr (''Bookmark-'' @ take 8 (b_id b) @ ''-'' @ dateStr))"

definition getBookmarkTitle :: "platform \<Rightarrow> KarakeepBookmark \<Rightarrow> js_error + string" where
  "getBookmarkTitle P b =
     (case nonBlank (title b) of
        Some t \<Rightarrow> Inr t
      | None \<Rightarrow>
          (let c = content b in
           case c_type c of
             Link \<Rightarrow>
               (case nonBlank (c_title c) of
                  Some t \<Rightarrow> Inr t
                | None \<Rightarrow>
                    if truthy (c_url c) then Inr (linkTitleFromUrl P (the (c_url c)))
                    else fallbackTitle P b)
           | Text \<Rightarrow>
               if truthy (c_text c) then
                 (let firstLine = trim (hd (splitOn (CHR 0x0A) (the (c_text c))))
                  in Inr (if length firstLine \<le> 100 then firstLine
                          else take 97 firstLine @ ''...''))
               else fallbackTitle P b
           | Asset \<Rightarrow>
               if truthy (fileName c) then Inr (trim (stripExtension (the (fileName c))))
               else if truthy (sourceUrl c) then Inr (assetTitleFromUrl P (the (sourceUrl c)))
               else fallbackTitle P b
           | Unknown \<Rightarrow> fallbackTitle P b))"

section \<open>The host: console, SiYuan kernel, network\<close>

text \<open>
  The plugin reaches the SiYuan kernel only through \<open>fetchSyncPost(endpoint, payload)\<close>,
  which answers \<open>{code, msg, data}\<close> or throws. The kernel is not under the plugin's
  control, so its answers are not computed here: the world holds, for each endpoint, the
  answers the kernel is going to give, in call order (a script that has run out answers
  as a network failure). Every request is recorded in \<open>requests\<close>. \<open>tree\<close> is the set of
  ids of the documents in the kernel's document tree: a removal the kernel acknowledges
  with code 0 takes its id out, a creation it acknowledges with code 0 and a non-empty id
  puts that id in. \<open>console\<close> records the level of every line the loggers of
  \<open>utils.ts\<close> print (the text of a line is not modelled), \<open>now\<close> is \<open>Date.now()\<close>.
  An answer has the type the plugin's annotations give it: rows of ids for the SQL
  query, an attribute object, a document id, the upload's \<open>succMap\<close>; \<open>data\<close> may be
  null (\<open>None\<close>).
\<close>

datatype level = Info | Warn | Err

datatype 'a reply = Throws js_error | Reply int string 'a

datatype kernel_request =
    SqlQuery string string
  | GetBlockAttrs string
  | SetBlockAttrs string "(string \<times> string option) list"
  | RemoveDocByID string
  | CreateDocWithMd string string string
  | UploadAsset string string "string option"

datatype http_request =
    SourceGet string "string option"
  | AssetGet string "string option"

record upload_data =
  succMap :: "(string \<times> string) list option"
  errFiles :: "string list option"

record http_response =
  ok :: bool
  http_status :: nat
  arrayBuffer :: "js_error + string"
  contentTypeHeader :: "string option"

datatype download = FetchThrows js_error | Responds http_response

record world =
  sql_replies :: "string list option reply list"
  getAttrs_replies :: "(string \<times> string) list option reply list"
  setAttrs_replies :: "unit reply list"
  remove_replies :: "unit reply list"
  create_replies :: "string option reply list"
  upload_replies :: "upload_data option reply list"
  download_replies :: "download list"
  tree :: "string set"
  requests :: "kernel_request list"
  fetched :: "http_request list"
  console :: "level list"
  now :: int

definition logInfo :: "world \<Rightarrow> world" where
  "logInfo w = w\<lparr>console := console w @ [Info]\<rparr>"

definition logWarn :: "world \<Rightarrow> world" where
  "logWarn w = w\<lparr>console := console w @ [Warn]\<rparr>"

definition logError :: "world \<Rightarrow> world" where
  "logError w = w\<lparr>console := console w @ [Err]\<rparr>"

definition nextReply :: "'a reply list \<Rightarrow> 'a reply \<times> 'a reply list" where
  "nextReply script =
     (case script of [] \<Rightarrow> (Throws (TypeError ''Failed to fetch''), []) | r # rest \<Rightarrow> (r, rest))"

text \<open>\<open>fetchSyncPost\<close> at each of the endpoints of \<open>constants.ts\<close> that the plugin calls.\<close>

definition post_sql :: "string \<Rightarrow> string \<Rightarrow> world \<Rightarrow> string list option reply \<times> world" where
  "post_sql notebookId kid w =
     (case nextReply (sql_replies w) of
        (r, rest) \<Rightarrow> (r, w\<lparr>sql_replies := rest, requests := requests w @ [SqlQuery notebookId kid]\<rparr>))"

definition post_getAttrs :: "string \<Rightarrow> world \<Rightarrow> (string \<times> string) list option reply \<times> world" where
  "post_getAttrs blockId w =
     (case nextReply (getAttrs_replies w) of
        (r, rest) \<Rightarrow> (r, w\<lparr>getAttrs_replies := rest, requests := requests w @ [GetBlockAttrs blockId]\<rparr>))"

definition post_setAttrs ::
  "string \<Rightarrow> (string \<times> string option) list \<Rightarrow> world \<Rightarrow> unit reply \<times> world" where
  "post_setAttrs docId attrs w =
     (case nextReply (setAttrs_replies w) of
        (r, rest) \<Rightarrow>
          (r, w\<lparr>setAttrs_replies := rest, requests := requests w @ [SetBlockAttrs docId attrs]\<rparr>))"

definition post_remove :: "string \<Rightarrow> world \<Rightarrow> unit reply \<times> world" where
  "post_remove docId w =
     (case nextReply (remove_replies w) of
        (r, rest) \<Rightarrow>
          (r, w\<lparr>remove_replies := rest,
                 requests := requests w @ [RemoveDocByID docId],
                 tree := (case r of Reply code msg u \<Rightarrow> if code = 0 then tree w - {docId} else tree w
                          | Throws e \<Rightarrow> tree w)\<rparr>))"

definition post_create :: "string \<Rightarrow> string \<Rightarrow> string \<Rightarrow> world \<Rightarrow> string option reply \<times> world" where
  "post_create notebookId path markdown w =
     (case nextReply (create_replies w) of
        (r, rest) \<Rightarrow>
          (r, w\<lparr>create_replies := rest,
                 requests := requests w @ [CreateDocWithMd notebookId path markdown],
                 tree := (case r of
                            Reply code msg newId \<Rightarrow>
                              if code = 0 \<and> truthy newId then insert (the newId) (tree w) else tree w
                          | Throws e \<Rightarrow> tree w)\<rparr>))"

definition post_upload ::
  "string \<Rightarrow> string \<Rightarrow> string option \<Rightarrow> world \<Rightarrow> upload_data option reply \<times> world" where
  "post_upload fname ctype notebook w =
     (case nextReply (upload_replies w) of
        (r, rest) \<Rightarrow>
          (r, w\<lparr>upload_replies := rest, requests := requests w @ [UploadAsset fname ctype notebook]\<rparr>))"

section \<open>siyuan\_api.ts: the target store adapter\<close>

definition findExistingDocIdByKarakeepId ::
  "string \<Rightarrow> string \<Rightarrow> world \<Rightarrow> (js_error + string option) \<times> world" where
  "findExistingDocIdByKarakeepId notebookId karakeepBookmarkId w =
     (case post_sql notebookId karakeepBookmarkId (logInfo w) of
        (Throws e, w1) \<Rightarrow> (Inl e, logError w1)
      | (Reply code msg dat, w1) \<Rightarrow>
          if code = 0 \<and> (case dat of Some rows \<Rightarrow> length rows > 0 | None \<Rightarrow> False)
          then (Inr (Some (hd (the dat))), logInfo w1)
          else if code = 0 then (Inr None, logInfo w1)
          else (Inr None, logError w1))"

definition getSiYuanBlockAttrs :: "string \<Rightarrow> world \<Rightarrow> (string \<times> string) list option \<times> world" where
  "getSiYuanBlockAttrs blockId w =
     (case post_getAttrs blockId w of
        (Throws e, w1) \<Rightarrow> (None, logError w1)
      | (Reply code msg dat, w1) \<Rightarrow>
          (case dat of
             Some attrs \<Rightarrow> if code = 0 then (Some attrs, w1) else (None, logWarn w1)
           | None \<Rightarrow> (None, logWarn w1)))"

text \<open>\<open>xs.join(sep)\<close> and \<open>String(b)\<close>.\<close>

fun joinWith :: "string \<Rightarrow> string list \<Rightarrow> string" where
  "joinWith sep [] = []"
| "joinWith sep [x] = x"
| "joinWith sep (x # y # ys) = x @ sep @ joinWith sep (y # ys)"

definition stringOfBool :: "bool \<Rightarrow> string" where
  "stringOfBool b = (if b then ''true'' else ''false'')"

text \<open>
  The object literal \<open>attrs\<close> of \<open>setSiYuanDocAttributes\<close>; it stands before the \<open>try\<close>,
  so the \<open>RangeError\<close> of \<open>toISOString\<close> on an invalid date leaves the function. A value
  \<open>None\<close> is \<open>undefined\<close>.
\<close>

definition docAttributes ::
  "platform \<Rightarrow> KarakeepBookmark \<Rightarrow> string \<Rightarrow> js_error + (string \<times> string option) list" where
  "docAttributes P b ttl =
     (case date_toISOString P (if truthy (modifiedAt b) then the (modifiedAt b) else createdAt b) of
        None \<Rightarrow> Inl (RangeError ''Invalid time value'')
      | Some modifiedIso \<Rightarrow>
          (case date_toISOString P (createdAt b) of
             None \<Rightarrow> Inl (RangeError ''Invalid time value'')
           | Some createdIso \<Rightarrow>
               (let urlValue =
                      (if c_type (content b) = Link then c_url (content b)
                       else if truthy (sourceUrl (content b)) then sourceUrl (content b)
                       else Some []);
                    tagsValue = joinWith '', '' (map name (tags b));
                    summaryValue = (if truthy (summary b) then the (summary b) else [])
                in Inr
                  [(ATTR_KARAKEEP_ID, Some (b_id b)),
                   (ATTR_MODIFIED, Some modifiedIso),
                   (''title'', Some ttl),
                   (''url'', urlValue),
                   (ATTR_PREFIX @ ''url'', urlValue),
                   (ATTR_PREFIX @ ''created'', Some createdIso),
                   (ATTR_PREFIX @ ''tags'', Some tagsValue),
                   (ATTR_PREFIX @ ''summary'', Some summaryValue),
                   (ATTR_PREFIX @ ''favourited'', Some (stringOfBool (favourited b))),
                   (ATTR_PREFIX @ ''archived'', Some (stringOfBool (archived b))),
                   (''created'', Some createdIso),
                   (''tags'', Some tagsValue),
                   (''summary'', Some summaryValue),
                   (''favourited'', Some (stringOfBool (favourited b))),
                   (''archived'', Some (stringOfBool (archived b)))])))"

definition setSiYuanDocAttributes ::
  "platform \<Rightarrow> string \<Rightarrow> KarakeepBookmark \<Rightarrow> string \<Rightarrow> world \<Rightarrow> (js_error + unit) \<times> world" where
  "setSiYuanDocAttributes P docRootId b ttl w =
     (case docAttributes P b ttl of
        Inl e \<Rightarrow> (Inl e, w)
      | Inr attrs \<Rightarrow>
          (case post_setAttrs docRootId attrs (logInfo w) of
             (Throws e, w1) \<Rightarrow> (Inr (), logError w1)
           | (Reply code msg u, w1) \<Rightarrow>
               if code = 0 then (Inr (), logInfo w1) else (Inr (), logError w1)))"

definition createSiYuanDocWithMd ::
  "string \<Rightarrow> string \<Rightarrow> string \<Rightarrow> string \<Rightarrow> world \<Rightarrow> string option \<times> world" where
  "createSiYuanDocWithMd notebookId path markdown karakeepIdForLog w =
     (case post_create notebookId path markdown (logInfo w) of
        (Throws e, w1) \<Rightarrow> (None, logError w1)
      | (Reply code msg dat, w1) \<Rightarrow>
          if code = 0 \<and> truthy dat then (dat, logInfo w1) else (None, logError w1))"

definition removeSiYuanDocById :: "string \<Rightarrow> world \<Rightarrow> bool \<times> world" where
  "removeSiYuanDocById docId w =
     (case post_remove docId (logInfo w) of
        (Throws e, w1) \<Rightarrow> (False, logError w1)
      | (Reply code msg u, w1) \<Rightarrow>
          if code = 0 then (True, logInfo w1) else (False, logError w1))"

text \<open>
  The asset pipeline \<open>downloadAndUploadAsset\<close>. \<open>fetch(assetUrl, {headers})\<close> takes the
  next answer of \<open>download_replies\<close> (a script that has run out is a network failure).
\<close>

definition fetchAsset :: "string \<Rightarrow> string option \<Rightarrow> world \<Rightarrow> download \<times> world" where
  "fetchAsset assetUrl auth w =
     (case download_replies w of
        [] \<Rightarrow> (FetchThrows (TypeError ''Failed to fetch''),
               w\<lparr>fetched := fetched w @ [AssetGet assetUrl auth]\<rparr>)
      | d # ds \<Rightarrow> (d, w\<lparr>download_replies := ds, fetched := fetched w @ [AssetGet assetUrl auth]\<rparr>))"

text \<open>\<open>[a-zA-Z0-9_-]\<close>, and the class \<open>[\\\/:\*\?"<>\|]\<close> of the file name clean-up.\<close>

definition isFileTitleChar :: "char \<Rightarrow> bool" where
  "isFileTitleChar c =
     (let n = (of_char c :: nat)
      in (97 \<le> n \<and> n \<le> 122) \<or> (65 \<le> n \<and> n \<le> 90) \<or> (48 \<le> n \<and> n \<le> 57)
         \<or> c = CHR ''_'' \<or> c = CHR ''-'')"

definition unsafeFileChars :: "char list" where
  "unsafeFileChars = [CHR 0x5C] @ ''/:*?'' @ [CHR 0x22] @ ''<>|''"

text \<open>Step 2 of \<open>downloadAndUploadAsset\<close>, "Prepare filename for SiYuan".\<close>

definition assetFileName :: "platform \<Rightarrow> string \<Rightarrow> string \<Rightarrow> string \<Rightarrow> string \<Rightarrow> string" where
  "assetFileName P assetUrl assetIdHint titleHint contentType =
     (let fromUrl =
            (case url_parse P assetUrl of
               None \<Rightarrow> []
             | Some parsed \<Rightarrow>
                 takeWhile (\<lambda>c. c \<noteq> CHR ''?'' \<and> c \<noteq> CHR ''#'')
                   (rev (takeWhile (\<lambda>c. c \<noteq> CHR ''/'') (rev (pathname parsed)))));
          chosen =
            (if fromUrl = [] \<or> length fromUrl > 50 \<or> CHR ''.'' \<notin> set fromUrl then
               (let extension = getExtensionFromContentType P contentType fromUrl;
                    safeTitlePart =
                      take 20 (map (\<lambda>c. if isFileTitleChar c then c else CHR ''-'') titleHint);
                    idPart = (if length assetIdHint > 8 then take 8 assetIdHint else assetIdHint)
                in idPart @ ''-'' @ (if safeTitlePart = [] then ''asset'' else safeTitlePart)
                     @ ''.'' @ extension)
             else fromUrl)
      in map (\<lambda>c. if isWhiteSpace c then CHR ''_'' else c)
           (map (\<lambda>c. if c \<in> set unsafeFileChars then CHR ''-'' else c) chosen))"

text \<open>
  Step 1, the request headers: the bearer credential when the asset URL starts with the
  origin of the configured endpoint; an endpoint that does not parse is logged and the
  request goes out without credential.
\<close>

definition assetAuthorization ::
  "platform \<Rightarrow> KarakeepSyncSettings \<Rightarrow> string \<Rightarrow> world \<Rightarrow> string option \<times> world" where
  "assetAuthorization P st assetUrl w =
     (case url_parse P (apiEndpoint st) of
        None \<Rightarrow> (None, logWarn w)
      | Some parsed \<Rightarrow>
          if startsWith assetUrl (origin parsed)
          then (Some (''Bearer '' @ apiKey st), w) else (None, w))"

text \<open>Steps 3 and 4, the form data and the upload; \<open>Inl\<close> is an exception of \<open>fetchSyncPost\<close>.\<close>

definition uploadToSiYuan ::
  "KarakeepSyncSettings \<Rightarrow> string \<Rightarrow> string \<Rightarrow> world \<Rightarrow> (js_error + string option) \<times> world" where
  "uploadToSiYuan st fname contentType w =
     (let w3 = (if truthy (syncNotebookId st) then w else logWarn w)
      in case post_upload fname contentType
                (if truthy (syncNotebookId st) then syncNotebookId st else None)
                (logInfo w3) of
           (Throws e, w4) \<Rightarrow> (Inl e, w4)
         | (Reply code msg dat, w4) \<Rightarrow>
             (let siyuanAssetPath =
                    (case dat of
                       None \<Rightarrow> None
                     | Some d \<Rightarrow>
                         (case succMap d of
                            None \<Rightarrow> None
                          | Some m \<Rightarrow> map_of m fname))
              in if code = 0 \<and> truthy siyuanAssetPath
                 then (Inr siyuanAssetPath, logInfo w4)
                 else (Inr None, logError w4)))"

text \<open>\<open>response.headers.get("content-type") || "application/octet-stream"\<close>.\<close>

definition contentTypeOf :: "http_response \<Rightarrow> string" where
  "contentTypeOf response =
     (if truthy (contentTypeHeader response) then the (contentTypeHeader response)
      else ''application/octet-stream'')"

text \<open>The \<open>try\<close> block of \<open>downloadAndUploadAsset\<close>; \<open>Inl\<close> is an exception thrown inside it.\<close>

definition downloadAndUploadAsset_try ::
  "platform \<Rightarrow> KarakeepSyncSettings \<Rightarrow> string \<Rightarrow> string \<Rightarrow> string \<Rightarrow> world \<Rightarrow>
     (js_error + string option) \<times> world" where
  "downloadAndUploadAsset_try P st assetUrl assetIdHint titleHint w =
     (case assetAuthorization P st assetUrl w of
        (auth, w1) \<Rightarrow>
          (case fetchAsset assetUrl auth w1 of
             (FetchThrows e, w2) \<Rightarrow> (Inl e, w2)
           | (Responds response, w2) \<Rightarrow>
               if \<not> ok response then
                 (Inr None,
                  if http_status response = 404 then logWarn w2
                  else if http_status response = 401 \<or> http_status response = 403 then logWarn w2
                  else logError w2)
               else
                 (case arrayBuffer response of
                    Inl e \<Rightarrow> (Inl e, w2)
                  | Inr buffer \<Rightarrow>
                      (let contentType = contentTypeOf response
                       in uploadToSiYuan st
                            (assetFileName P assetUrl assetIdHint titleHint contentType)
                            contentType w2))))"

text \<open>\<open>downloadAndUploadAsset\<close>: the first log line, the \<open>try\<close> block and its \<open>catch\<close>.\<close>

definition downloadAndUploadAsset ::
  "platform \<Rightarrow> KarakeepSyncSettings \<Rightarrow> string \<Rightarrow> string \<Rightarrow> string \<Rightarrow> world \<Rightarrow>
     (js_error + string option) \<times> world" where
  "downloadAndUploadAsset P st assetUrl assetIdHint titleHint w =
     (case downloadAndUploadAsset_try P st assetUrl assetIdHint titleHint (logInfo w) of
        (Inl e, w1) \<Rightarrow> (Inr None, logError w1)
      | (Inr r, w1) \<Rightarrow> (Inr r, w1))"

section \<open>karakeep\_api.ts: the source client\<close>

text \<open>
  What the global \<open>fetch\<close> and \<open>response.json()\<close> give for one page request: a network
  failure, a response that is not \<open>ok\<close> (status and body text), a page, or a body that
  is not JSON. \<open>response.json()\<close> is returned without \<open>await\<close>, so its rejection does
  not pass through the \<open>catch\<close> of \<open>fetchKarakeepBookmarks\<close>.
\<close>

datatype page_reply =
    NetworkFailure js_error
  | NotOk nat string
  | Page KarakeepResponse
  | BadJson js_error

text \<open>\<open>settings.apiEndpoint.replace(/\/$/, "")\<close> followed by \<open>/bookmarks\<close>.\<close>

definition bookmarksUrl :: "KarakeepSyncSettings \<Rightarrow> string" where
  "bookmarksUrl st =
     (let e = apiEndpoint st
      in (if e \<noteq> [] \<and> last e = CHR ''/'' then butlast e else e) @ ''/bookmarks'')"

definition fetchKarakeepBookmarks ::
  "KarakeepSyncSettings \<Rightarrow> string option \<Rightarrow> page_reply \<Rightarrow> world \<Rightarrow>
     (js_error + KarakeepResponse) \<times> world" where
  "fetchKarakeepBookmarks st cursor r w =
     (let w1 = (logInfo w)\<lparr>fetched := fetched w @
                  [SourceGet (bookmarksUrl st) (if truthy cursor then cursor else None)]\<rparr>
      in case r of
           NetworkFailure e \<Rightarrow> (Inl e, logError w1)
         | NotOk st_code body \<Rightarrow>
             (Inl (Error (''Karakeep API request failed: '' @ decimal st_code @ '' '' @ body)),
              logError (logError w1))
         | Page resp \<Rightarrow> (Inr resp, w1)
         | BadJson e \<Rightarrow> (Inl e, w1))"

section \<open>sync\_logic.ts: the reconciliation engine\<close>

text \<open>
  The plugin object, as far as the engine reads and writes it: the settings and the
  table of translated messages. \<open>formatBookmarkAsMarkdown\<close> of \<open>formatting.ts\<close> is
  represented by its outcome for a bookmark and a title, the Markdown body or the
  exception it throws; the requests it sends for assets go to the asset endpoint and
  are left out of \<open>requests\<close> here.
\<close>

record plugin =
  settings :: KarakeepSyncSettings
  i18n :: "string \<Rightarrow> string option"

type_synonym formatter = "KarakeepBookmark \<Rightarrow> string \<Rightarrow> js_error + string"

text \<open>\<open>plugin.i18n.key || "default"\<close>.\<close>

definition tr :: "plugin \<Rightarrow> string \<Rightarrow> string \<Rightarrow> string" where
  "tr pl key dflt = (if truthy (i18n pl key) then the (i18n pl key) else dflt)"

text \<open>The locals \<open>storedModifiedTime\<close> and \<open>bookmarkModifiedTime\<close> of \<open>shouldUpdateDocument\<close>.\<close>

definition storedModifiedTime :: "platform \<Rightarrow> (string \<times> string) list \<Rightarrow> timeval" where
  "storedModifiedTime P attrs =
     (if truthy (map_of attrs ATTR_MODIFIED)
      then date_getTime P (the (map_of attrs ATTR_MODIFIED)) else Ms 0)"

definition bookmarkModifiedTime :: "platform \<Rightarrow> KarakeepBookmark \<Rightarrow> timeval" where
  "bookmarkModifiedTime P b =
     (if truthy (modifiedAt b) then date_getTime P (the (modifiedAt b))
      else date_getTime P (createdAt b))"

definition shouldUpdateDocument ::
  "platform \<Rightarrow> plugin \<Rightarrow> string \<Rightarrow> KarakeepBookmark \<Rightarrow> world \<Rightarrow> bool \<times> world" where
  "shouldUpdateDocument P pl docId b w =
     (if \<not> updateExistingFiles (settings pl) then (False, w)
      else
        (case getSiYuanBlockAttrs docId w of
           (Some attrs, w1) \<Rightarrow>
             if falsy_time (storedModifiedTime P attrs)
                \<or> time_gt (bookmarkModifiedTime P b) (storedModifiedTime P attrs)
             then (True, logInfo w1)
             else (False, w1)
         | (None, w1) \<Rightarrow> (True, logWarn w1)))"

definition createNewSiYuanDocument ::
  "platform \<Rightarrow> formatter \<Rightarrow> KarakeepBookmark \<Rightarrow> string \<Rightarrow> string \<Rightarrow> string \<Rightarrow> world \<Rightarrow>
     ProcessResult \<times> world" where
  "createNewSiYuanDocument P fmt b notebookId ttl path w =
     (case fmt b ttl of
        Inl e \<Rightarrow>
          (\<lparr>status = Errored, message = Some (message_or e ''Document creation failed'')\<rparr>,
           logError w)
      | Inr markdownContent \<Rightarrow>
          (case createSiYuanDocWithMd notebookId path markdownContent (b_id b) w of
             (Some newDocId, w1) \<Rightarrow>
               (case setSiYuanDocAttributes P newDocId b ttl w1 of
                  (Inl e, w2) \<Rightarrow>
                    (\<lparr>status = Errored,
                      message = Some (message_or e ''Document creation failed'')\<rparr>,
                     logError w2)
                | (Inr u, w2) \<Rightarrow> (\<lparr>status = Created, message = None\<rparr>, w2))
           | (None, w1) \<Rightarrow>
               (\<lparr>status = Errored, message = Some ''Failed to create document via API.''\<rparr>,
                w1)))"

definition updateSiYuanDocument ::
  "platform \<Rightarrow> formatter \<Rightarrow> string \<Rightarrow> KarakeepBookmark \<Rightarrow> string \<Rightarrow> string \<Rightarrow> string \<Rightarrow> world \<Rightarrow>
     ProcessResult \<times> world" where
  "updateSiYuanDocument P fmt existingDocId b notebookId ttl path w =
     (case removeSiYuanDocById existingDocId w of
        (False, w1) \<Rightarrow>
          (\<lparr>status = Errored, message = Some (''Failed to delete old doc '' @ existingDocId)\<rparr>,
           w1)
      | (True, w1) \<Rightarrow>
          (case createNewSiYuanDocument P fmt b notebookId ttl path (logInfo w1) of
             (createResult, w2) \<Rightarrow>
               if status createResult = Created
               then (\<lparr>status = Updated, message = None\<rparr>, w2)
               else (createResult, logError w2)))"

text \<open>The tag filter of \<open>processBookmark\<close>: the condition of the inner \<open>if\<close>.\<close>

definition hasExcludedTag :: "platform \<Rightarrow> KarakeepSyncSettings \<Rightarrow> KarakeepBookmark \<Rightarrow> bool" where
  "hasExcludedTag P st b =
     (let bookmarkTagsLower = map (\<lambda>tag. toLowerCase P (name tag)) (tags b);
          excludedTagsLower =
            filter (\<lambda>t. t \<noteq> []) (map (\<lambda>t. trim (toLowerCase P t)) (excludedTags st))
      in list_ex (\<lambda>excludedTag. excludedTag \<in> set bookmarkTagsLower) excludedTagsLower)"

text \<open>
  \<open>processBookmark\<close>, step 1 "Apply Filters": the result of the first filter that
  drops the record, if one does.
\<close>

definition applyFilters ::
  "platform \<Rightarrow> KarakeepSyncSettings \<Rightarrow> KarakeepBookmark \<Rightarrow> ProcessResult option" where
  "applyFilters P st b =
     (if excludeArchived st \<and> archived b
      then Some \<lparr>status = Skipped_filtered, message = Some ''Archived''\<rparr>
      else if onlyFavorites st \<and> \<not> favourited b
      then Some \<lparr>status = Skipped_filtered, message = Some ''Not favorite''\<rparr>
      else if \<not> favourited b \<and> length (excludedTags st) > 0 \<and> hasExcludedTag P st b
      then Some \<lparr>status = Skipped_filtered, message = Some ''Excluded tag''\<rparr>
      else None)"

text \<open>
  Steps 3 to 5, the \<open>try\<close> block and its \<open>catch\<close>: inside the \<open>try\<close> only
  \<open>findExistingDocIdByKarakeepId\<close> can throw, and the \<open>catch\<close> turns that into the
  result \<open>error\<close>.
\<close>

definition reconcile ::
  "platform \<Rightarrow> plugin \<Rightarrow> formatter \<Rightarrow> KarakeepBookmark \<Rightarrow> string \<Rightarrow> string \<Rightarrow> string \<Rightarrow> world \<Rightarrow>
     ProcessResult \<times> world" where
  "reconcile P pl fmt b notebookId ttl safeDocPath w =
     (case findExistingDocIdByKarakeepId notebookId (b_id b) w of
        (Inl e, w1) \<Rightarrow>
          (\<lparr>status = Errored, message = Some (message_or e ''Unknown processing error'')\<rparr>,
           logError w1)
      | (Inr existingDocId, w1) \<Rightarrow>
          if truthy existingDocId then
            (case shouldUpdateDocument P pl (the existingDocId) b w1 of
               (True, w2) \<Rightarrow>
                 updateSiYuanDocument P fmt (the existingDocId) b notebookId ttl safeDocPath
                   (logInfo w2)
             | (False, w2) \<Rightarrow>
                 (\<lparr>status = Skipped, message = Some ''Exists, no update needed''\<rparr>, logInfo w2))
          else createNewSiYuanDocument P fmt b notebookId ttl safeDocPath (logInfo w1))"

text \<open>
  \<open>processBookmark\<close>. The filters and step 2 "Prepare Document Info" stand before the
  \<open>try\<close>: an exception of \<open>getBookmarkTitle\<close> or \<open>sanitizeSiYuanPath\<close> leaves the function
  (\<open>Inl\<close>). \<open>safeDocPath\<close> is the path after a slash, with
  \<open>.replace(/^\/+/, "/")\<close>.
\<close>

definition processBookmark ::
  "platform \<Rightarrow> plugin \<Rightarrow> formatter \<Rightarrow> KarakeepBookmark \<Rightarrow> string \<Rightarrow> world \<Rightarrow>
     (js_error + ProcessResult) \<times> world" where
  "processBookmark P pl fmt b notebookId w =
     (case applyFilters P (settings pl) b of
        Some filtered \<Rightarrow> (Inr filtered, w)
      | None \<Rightarrow>
          (case getBookmarkTitle P b of
             Inl e \<Rightarrow> (Inl e, w)
           | Inr ttl \<Rightarrow>
               (case sanitizeSiYuanPath P ttl (createdAt b) of
                  Inl e \<Rightarrow> (Inl e, w)
                | Inr p \<Rightarrow>
                    (case reconcile P pl fmt b notebookId ttl
                            (CHR ''/'' # dropWhile (\<lambda>c. c = CHR ''/'') p) w of
                       (r, w1) \<Rightarrow> (Inr r, w1)))))"

text \<open>
  The local variables of \<open>runSyncCycle\<close> that outlive one loop iteration. (\<open>pageCount\<close>
  only feeds log lines.)
\<close>

record sync_vars =
  createdCount :: nat
  updatedCount :: nat
  skippedCount :: nat
  skippedFilteredCount :: nat
  errorCount :: nat
  criticalErrorOccurred :: bool
  processedBookmarkIds :: "string set"

text \<open>The \<open>switch (result.status)\<close>.\<close>

definition countResult :: "ProcessResult \<Rightarrow> sync_vars \<Rightarrow> world \<Rightarrow> sync_vars \<times> world" where
  "countResult r v w =
     (case status r of
        Created \<Rightarrow> (v\<lparr>createdCount := createdCount v + 1\<rparr>, w)
      | Updated \<Rightarrow> (v\<lparr>updatedCount := updatedCount v + 1\<rparr>, w)
      | Skipped \<Rightarrow> (v\<lparr>skippedCount := skippedCount v + 1\<rparr>, w)
      | Skipped_filtered \<Rightarrow> (v\<lparr>skippedFilteredCount := skippedFilteredCount v + 1\<rparr>, w)
      | Errored \<Rightarrow> (v\<lparr>errorCount := errorCount v + 1\<rparr>, logError w))"

text \<open>
  The \<open>for (const bookmark of bookmarks)\<close> loop. The first component of the result is
  the exception that left the loop, if one did.
\<close>

fun processBookmarks ::
  "platform \<Rightarrow> plugin \<Rightarrow> formatter \<Rightarrow> string \<Rightarrow> KarakeepBookmark list \<Rightarrow> sync_vars \<Rightarrow> world \<Rightarrow>
     js_error option \<times> sync_vars \<times> world" where
  "processBookmarks P pl fmt notebookId [] v w = (None, v, w)"
| "processBookmarks P pl fmt notebookId (b # bs) v w =
     (if b_id b \<in> processedBookmarkIds v
      then processBookmarks P pl fmt notebookId bs v (logWarn w)
      else
        (let v1 = v\<lparr>processedBookmarkIds := insert (b_id b) (processedBookmarkIds v)\<rparr> in
         case processBookmark P pl fmt b notebookId w of
           (Inl e, w1) \<Rightarrow> (Some e, v1, w1)
         | (Inr r, w1) \<Rightarrow>
             (case countResult r v1 w1 of
                (v2, w2) \<Rightarrow>
                  if criticalErrorOccurred v2 then (None, v2, logWarn w2)
                  else processBookmarks P pl fmt notebookId bs v2 w2)))"

text \<open>
  The \<open>do ... while (cursor && !criticalErrorOccurred)\<close> loop. The answers of the source
  to the page requests of the run are given in call order; when they have run out the
  next request fails as a network failure.
\<close>

fun syncLoop ::
  "platform \<Rightarrow> plugin \<Rightarrow> formatter \<Rightarrow> string \<Rightarrow> page_reply list \<Rightarrow> string option \<Rightarrow>
     sync_vars \<Rightarrow> world \<Rightarrow> js_error option \<times> sync_vars \<times> world" where
  "syncLoop P pl fmt notebookId [] cursor v w =
     (case fetchKarakeepBookmarks (settings pl) cursor
             (NetworkFailure (TypeError ''Failed to fetch'')) (logInfo w) of
        (Inl e, w1) \<Rightarrow> (Some e, v, w1)
      | (Inr resp, w1) \<Rightarrow> (None, v, w1))"
| "syncLoop P pl fmt notebookId (r # rs) cursor v w =
     (case fetchKarakeepBookmarks (settings pl) cursor r (logInfo w) of
        (Inl e, w1) \<Rightarrow> (Some e, v, w1)
      | (Inr resp, w1) \<Rightarrow>
          (case processBookmarks P pl fmt notebookId (bookmarks resp) v (logInfo w1) of
             (Some e, v1, w2) \<Rightarrow> (Some e, v1, w2)
           | (None, v1, w2) \<Rightarrow>
               if criticalErrorOccurred v1 then (None, v1, logInfo w2)
               else if truthy (nextCursor resp) \<and> \<not> criticalErrorOccurred v1
               then syncLoop P pl fmt notebookId rs (nextCursor resp) v1 (logInfo w2)
               else (None, v1, logInfo w2)))"

text \<open>
  The body of \<open>runSyncCycle\<close> up to the end of its \<open>try ... catch\<close>: the final values of
  the local variables, \<open>finalMessage\<close> as the \<open>catch\<close> leaves it, the plugin and the world.
\<close>

definition initialVars :: sync_vars where
  "initialVars =
     \<lparr>createdCount = 0, updatedCount = 0, skippedCount = 0, skippedFilteredCount = 0,
      errorCount = 0, criticalErrorOccurred = False, processedBookmarkIds = {}\<rparr>"

definition critical :: "plugin \<Rightarrow> js_error \<Rightarrow> sync_vars \<Rightarrow> world \<Rightarrow> sync_vars \<times> string \<times> world" where
  "critical pl e v w =
     (v\<lparr>criticalErrorOccurred := True, errorCount := errorCount v + 1\<rparr>,
      tr pl ''syncFailed'' ''Sync failed critically'' @ '': '' @ message_or e ''Unknown error'',
      logError w)"

definition syncCycle ::
  "platform \<Rightarrow> plugin \<Rightarrow> formatter \<Rightarrow> page_reply list \<Rightarrow> world \<Rightarrow>
     sync_vars \<times> string \<times> plugin \<times> world" where
  "syncCycle P pl fmt replies w =
     (let w0 = logInfo w in
      if apiKey (settings pl) = [] then
        (case critical pl (Error (tr pl ''apiKeyMissing'' ''Karakeep API key not configured.''))
                initialVars w0 of
           (v, msg, w1) \<Rightarrow> (v, msg, pl, w1))
      else if \<not> truthy (syncNotebookId (settings pl)) then
        (case critical pl (Error (tr pl ''notebookMissing'' ''Target SiYuan notebook not configured.''))
                initialVars w0 of
           (v, msg, w1) \<Rightarrow> (v, msg, pl, w1))
      else
        (case syncLoop P pl fmt (the (syncNotebookId (settings pl))) replies None initialVars
                (logInfo w0) of
           (Some e, v, w1) \<Rightarrow> (case critical pl e v w1 of (v', msg, w2) \<Rightarrow> (v', msg, pl, w2))
         | (None, v, w1) \<Rightarrow>
             (let w2 = logInfo w1 in
              if \<not> criticalErrorOccurred v
              then (v, [],
                    pl\<lparr>settings := (settings pl)\<lparr>lastSyncTimestamp := now w2\<rparr>\<rparr>,
                    logInfo (logInfo w2))
              else (v, [], pl, w2))))"

record sync_result =
  success :: bool
  final_message :: string

text \<open>\<open>runSyncCycle\<close>: the message built after the \<open>try ... catch\<close>, and the summary returned.\<close>

definition finalMessage :: "plugin \<Rightarrow> sync_vars \<Rightarrow> string \<Rightarrow> string" where
  "finalMessage pl v caught =
     (if \<not> criticalErrorOccurred v then
        tr pl ''syncComplete'' ''Sync complete'' @ '': ''
          @ decimal (createdCount v) @ '' '' @ tr pl ''created'' ''created'' @ '', ''
          @ decimal (updatedCount v) @ '' '' @ tr pl ''updated'' ''updated'' @ '', ''
          @ decimal (skippedCount v + skippedFilteredCount v) @ '' '' @ tr pl ''skipped'' ''skipped''
          @ (if skippedFilteredCount v > 0
             then '' ('' @ decimal (skippedFilteredCount v) @ '' '' @ tr pl ''filtered'' ''filtered'' @ '')''
             else [])
          @ (if errorCount v > 0
             then '', '' @ decimal (errorCount v) @ '' '' @ tr pl ''errors'' ''errors''
                  @ '' ('' @ tr pl ''checkLogs'' ''check logs'' @ '')''
             else [])
      else if caught = [] then tr pl ''syncFailed'' ''Sync failed critically''
      else caught)"

definition runSyncCycle ::
  "platform \<Rightarrow> plugin \<Rightarrow> formatter \<Rightarrow> page_reply list \<Rightarrow> world \<Rightarrow> sync_result \<times> plugin \<times> world" where
  "runSyncCycle P pl fmt replies w =
     (case syncCycle P pl fmt replies w of
        (v, caught, pl', w1) \<Rightarrow>
          (\<lparr>success = (\<not> criticalErrorOccurred v \<and> errorCount v = 0),
            final_message = finalMessage pl v caught\<rparr>,
           pl', logInfo w1))"

section \<open>Sample inputs and notions of the specification\<close>

text \<open>How V8 renders a built-in function in a template string.\<close>

definition nativeFunction :: "string \<Rightarrow> string" where
  "nativeFunction fname = ''function '' @ fname @ ''() { [native code] }''"

text \<open>
  An engine that answers as a JavaScript engine does on the strings the examples below
  use (what it answers on other strings is of no account): the dates
  \<open>2024-03-01T00:00:00Z\<close>, \<open>2024-03-02T00:00:00Z\<close> and \<open>1970-01-01T00:00:00.000Z\<close>, and
  \<open>yesterday\<close>, which is no date; the URLs \<open>https://example.com/\<close>,
  \<open>https://example.com/a//\<close>, \<open>https://example.com/assets/a1\<close> and
  \<open>https://img.example.org/pic.png\<close>, and \<open>not a url\<close> and \<open>assets/pic.png\<close>, which are
  no absolute URLs; ASCII text. The members of \<open>Object.prototype\<close> are those of the
  language standard.
\<close>

definition asciiLower :: "string \<Rightarrow> string" where
  "asciiLower s =
     map (\<lambda>c. let n = (of_char c :: nat) in if 65 \<le> n \<and> n \<le> 90 then char_of (n + 32) else c) s"

definition engine :: platform where
  "engine =
     \<lparr>date_toISOString =
        (\<lambda>s. if s = ''2024-03-01T00:00:00Z'' then Some ''2024-03-01T00:00:00.000Z''
             else if s = ''2024-03-02T00:00:00Z'' then Some ''2024-03-02T00:00:00.000Z''
             else if s = ''1970-01-01T00:00:00.000Z'' then Some ''1970-01-01T00:00:00.000Z''
             else None),
      date_getTime =
        (\<lambda>s. if s = ''2024-03-01T00:00:00Z'' then Ms 1709251200000
             else if s = ''2024-03-02T00:00:00Z'' then Ms 1709337600000
             else if s = ''1970-01-01T00:00:00.000Z'' then Ms 0
             else NaN),
      url_parse =
        (\<lambda>s. if s = ''https://example.com/''
             then Some \<lparr>origin = ''https://example.com'', hostname = ''example.com'',
                        pathname = ''/''\<rparr>
             else if s = ''https://example.com/a//''
             then Some \<lparr>origin = ''https://example.com'', hostname = ''example.com'',
                        pathname = ''/a//''\<rparr>
             else if s = ''https://img.example.org/pic.png''
             then Some \<lparr>origin = ''https://img.example.org'', hostname = ''img.example.org'',
                        pathname = ''/pic.png''\<rparr>
             else if s = ''https://example.com/assets/a1''
             then Some \<lparr>origin = ''https://example.com'', hostname = ''example.com'',
                        pathname = ''/assets/a1''\<rparr>
             else None),
      decodeURIComponent = (\<lambda>s. if CHR ''%'' \<in> set s then None else Some s),
      toLowerCase = asciiLower,
      objectPrototype =
        map_of
          ([(''constructor'', nativeFunction ''Object''), (''__proto__'', ''[object Object]'')] @
           map (\<lambda>k. (k, nativeFunction k))
             [''hasOwnProperty'', ''isPrototypeOf'', ''propertyIsEnumerable'', ''toLocaleString'',
              ''toString'', ''valueOf'', ''__defineGetter__'', ''__defineSetter__'',
              ''__lookupGetter__'', ''__lookupSetter__''])\<rparr>"

definition longTitle :: string where
  "longTitle = ''The quick brown fox: jumps over the lazy dog again and again - and again''"

definition noContent :: KarakeepBookmarkContent where
  "noContent =
     \<lparr>c_type = Unknown, c_url = None, c_title = None, description = None, imageUrl = None,
      imageAssetId = None, screenshotAssetId = None, fullPageArchiveAssetId = None,
      videoAssetId = None, favicon = None, htmlContent = None, crawledAt = None,
      c_text = None, sourceUrl = None, assetType = None, assetId = None, fileName = None\<rparr>"

definition linkBookmark :: "string \<Rightarrow> string \<Rightarrow> KarakeepBookmark" where
  "linkBookmark ident u =
     \<lparr>b_id = ident, createdAt = ''2024-03-01T00:00:00Z'', modifiedAt = None, title = None,
      archived = False, favourited = False, taggingStatus = None, b_note = None,
      summary = None, tags = [],
      content = noContent\<lparr>c_type := Link, c_url := Some u\<rparr>\<rparr>"


definition quietWorld :: world where
  "quietWorld =
     \<lparr>sql_replies = [], getAttrs_replies = [], setAttrs_replies = [], remove_replies = [],
      create_replies = [], upload_replies = [], download_replies = [], tree = {},
      requests = [], fetched = [], console = [], now = 1709300000000\<rparr>"

definition sampleSettings :: KarakeepSyncSettings where
  "sampleSettings =
     \<lparr>apiKey = ''secret'', apiEndpoint = ''https://example.com/'',
      syncNotebookId = Some ''notebook1'', syncIntervalMinutes = 60, lastSyncTimestamp = 0,
      updateExistingFiles = True, excludeArchived = True, onlyFavorites = False,
      excludedTags = [''private''], downloadAssets = True\<rparr>"

definition samplePlugin :: plugin where
  "samplePlugin = \<lparr>settings = sampleSettings, i18n = (\<lambda>key. None)\<rparr>"

definition plainFormatter :: formatter where
  "plainFormatter b ttl = Inr (''# '' @ ttl)"

text \<open>
  What the kernel's next answer to an upload acknowledges for a file name: the path of
  its \<open>succMap\<close> when the code is 0 and the path is not empty.
\<close>

definition uploadOutcome :: "upload_data option reply list \<Rightarrow> string \<Rightarrow> string option" where
  "uploadOutcome script fname =
     (case script of
        Reply code msg (Some d) # us \<Rightarrow>
          (case succMap d of
             Some m \<Rightarrow> if code = 0 \<and> truthy (map_of m fname) then map_of m fname else None
           | None \<Rightarrow> None)
      | _ \<Rightarrow> None)"

definition pngResponse :: http_response where
  "pngResponse =
     \<lparr>ok = True, http_status = 200, arrayBuffer = Inr ''PNG'',
      contentTypeHeader = Some ''image/png''\<rparr>"

definition epochBookmark :: KarakeepBookmark where
  "epochBookmark = (linkBookmark ''bm0'' ''https://example.com/'')\<lparr>createdAt := ''1970-01-01T00:00:00.000Z''\<rparr>"

definition epochAttrs :: "(string \<times> string) list" where
  "epochAttrs = [(ATTR_KARAKEEP_ID, ''bm0''), (ATTR_MODIFIED, ''1970-01-01T00:00:00.000Z'')]"

definition marchAttrs :: "(string \<times> string) list" where
  "marchAttrs = [(ATTR_KARAKEEP_ID, ''bm1''), (ATTR_MODIFIED, ''2024-03-01T00:00:00Z'')]"

definition taggedBookmark :: KarakeepBookmark where
  "taggedBookmark =
     (linkBookmark ''bm2'' ''https://example.com/'')
       \<lparr>title := Some ''Taxes'',
        tags := [\<lparr>tag_id = ''t1'', name = ''Private'', attachedBy = Human\<rparr>,
                 \<lparr>tag_id = ''t2'', name = ''private'', attachedBy = Ai\<rparr>]\<rparr>"

definition createWorld :: world where
  "createWorld =
     quietWorld\<lparr>sql_replies := [Reply 0 [] (Some [])],
                 create_replies := [Reply 0 [] (Some ''doc9'')],
                 setAttrs_replies := [Reply 0 [] ()]\<rparr>"




text \<open>The number of outcomes a run has counted.\<close>

definition tally :: "sync_vars \<Rightarrow> nat" where
  "tally v =
     createdCount v + updatedCount v + skippedCount v + skippedFilteredCount v + errorCount v"

text \<open>
  The records of the pages a run fetches when no request fails: those of each page in
  turn, as long as the page before it carries a cursor.
\<close>

fun fetchedBookmarks :: "page_reply list \<Rightarrow> KarakeepBookmark list" where
  "fetchedBookmarks (Page resp # rs) =
     bookmarks resp @ (if truthy (nextCursor resp) then fetchedBookmarks rs else [])"
| "fetchedBookmarks _ = []"

definition favouriteBookmark :: KarakeepBookmark where
  "favouriteBookmark = taggedBookmark\<lparr>favourited := True\<rparr>"

text \<open>Two pages of one record each, the same record twice.\<close>

definition overlappingPages :: "page_reply list" where
  "overlappingPages =
     [Page \<lparr>bookmarks = [favouriteBookmark], total = 2, nextCursor = Some ''cursor1''\<rparr>,
      Page \<lparr>bookmarks = [favouriteBookmark], total = 2, nextCursor = None\<rparr>]"

text \<open>One page of two records; the existence lookup of the first one fails.\<close>

definition twoRecords :: "page_reply list" where
  "twoRecords =
     [Page \<lparr>bookmarks = [linkBookmark ''bm1'' ''https://example.com/'', favouriteBookmark],
            total = 2, nextCursor = None\<rparr>]"

definition failingLookupWorld :: world where
  "failingLookupWorld =
     createWorld\<lparr>sql_replies := [Throws (TypeError ''Failed to fetch''), Reply 0 [] (Some [])]\<rparr>"

text \<open>The invariant of the loops: every processed id has been counted once.\<close>

definition counted :: "sync_vars \<Rightarrow> bool" where
  "counted v = (finite (processedBookmarkIds v) \<and> tally v = card (processedBookmarkIds v))"

text \<open>
  The words of the specification for the collapsed title, "repeated \<open>-\<close> collapsed": of
  two dashes in a row the first one is dropped.
\<close>

fun squeezeDashes :: "string \<Rightarrow> string" where
  "squeezeDashes (a # b # cs) =
     (if a = CHR ''-'' \<and> b = CHR ''-'' then squeezeDashes (b # cs) else a # squeezeDashes (b # cs))"
| "squeezeDashes cs = cs"

text \<open>A title whose sixtieth character, once sanitized, is a dot.\<close>

definition dottedTitle :: string where
  "dottedTitle = ''Minutes of the general assembly of the reading club in June.final draft''"

text \<open>Two consecutive dashes nowhere in a string.\<close>

definition noDoubleDash :: "string \<Rightarrow> bool" where
  "noDoubleDash s = successively (\<lambda>a b. \<not> (a = CHR ''-'' \<and> b = CHR ''-'')) s"

section \<open>Path derivation\<close>

lemma splitOn_not_Nil: "splitOn sep s \<noteq> []"
  by (induction s) (auto split: list.splits)

lemma set_replaceRuns: "set (replaceRuns p b s) \<subseteq> {c \<in> set s. \<not> p c} \<union> {CHR ''-''}"
  by (induction s arbitrary: b) auto

lemma set_trimEnd: "set (trimEnd p s) \<subseteq> set s"
  unfolding trimEnd_def using set_dropWhileD by fastforce

lemma set_trimBoth: "set (trimBoth p s) \<subseteq> set s"
  unfolding trimBoth_def using set_trimEnd set_dropWhileD by fastforce

lemma length_trimEnd: "length (trimEnd p s) \<le> length s"
  unfolding trimEnd_def using length_dropWhile_le[of p "rev s"] by simp

lemma trimEnd_last: "trimEnd p s \<noteq> [] \<Longrightarrow> \<not> p (last (trimEnd p s))"
  unfolding trimEnd_def using hd_dropWhile[of p "rev s"] by (simp add: last_rev)

lemma successively_dropWhile: "successively R s \<Longrightarrow> successively R (dropWhile p s)"
  using successively_append_iff[of R "takeWhile p s" "dropWhile p s"] by simp

lemma successively_take: "successively R s \<Longrightarrow> successively R (take n s)"
  using successively_append_iff[of R "take n s" "drop n s"] by simp

lemma successively_trimEnd:
  assumes "successively R s" and "\<And>x y. R x y = R y x"
  shows "successively R (trimEnd p s)"
proof -
  have "successively R (rev s)" using assms by simp
  then have "successively R (dropWhile p (rev s))" by (rule successively_dropWhile)
  then show ?thesis unfolding trimEnd_def using assms(2) by simp
qed

lemma noDoubleDash_trimEnd: "noDoubleDash s \<Longrightarrow> noDoubleDash (trimEnd p s)"
  unfolding noDoubleDash_def by (rule successively_trimEnd) auto

lemma noDoubleDash_trimBoth: "noDoubleDash s \<Longrightarrow> noDoubleDash (trimBoth p s)"
  unfolding trimBoth_def
  by (rule noDoubleDash_trimEnd) (simp add: noDoubleDash_def successively_dropWhile)

lemma noDoubleDash_take: "noDoubleDash s \<Longrightarrow> noDoubleDash (take n s)"
  unfolding noDoubleDash_def by (rule successively_take)

lemma replaceRuns_dash:
  "noDoubleDash (replaceRuns (\<lambda>c. c = CHR ''-'') b s) \<and>
   (b \<longrightarrow> replaceRuns (\<lambda>c. c = CHR ''-'') b s = [] \<or>
      hd (replaceRuns (\<lambda>c. c = CHR ''-'') b s) \<noteq> CHR ''-'')"
  unfolding noDoubleDash_def
  by (induction s arbitrary: b) (auto simp: successively_Cons)

lemma sanitizeTitle_length: "length (sanitizeTitle t) \<le> 60"
  unfolding sanitizeTitle_def sanitizeChars_def dashTrimmed_def replacedTitle_def Let_def
  by (auto intro: order_trans[OF length_trimEnd])

lemma sanitizeTitle_dashes: "noDoubleDash (sanitizeTitle t)"
  unfolding sanitizeTitle_def sanitizeChars_def dashTrimmed_def replacedTitle_def Let_def
  using replaceRuns_dash[of False]
  by (simp add: noDoubleDash_trimBoth noDoubleDash_trimEnd noDoubleDash_take)

lemma dash_safe: "CHR ''-'' \<notin> set unsafePathChars" "\<not> isWhiteSpace (CHR ''-'')"
  by (simp_all add: unsafePathChars_def isWhiteSpace_def)

lemma sanitizeTitle_subset:
  "set (sanitizeTitle t) \<subseteq>
     set (replaceRuns (\<lambda>c. c = CHR ''-'') False (replaceRuns isWhiteSpace False
       (map (\<lambda>c. if c \<in> set unsafePathChars then CHR ''-'' else c) t)))"
proof -
  have a: "set (trimBoth p (trimBoth q s)) \<subseteq> set s" for p q and s :: string
    using set_trimBoth[of p "trimBoth q s"] set_trimBoth[of q s] by blast
  have b: "set (trimEnd p (take n s)) \<subseteq> set s" for p n and s :: string
    using set_trimEnd[of p "take n s"] set_take_subset[of n s] by blast
  show ?thesis
    unfolding sanitizeTitle_def sanitizeChars_def dashTrimmed_def replacedTitle_def Let_def
    using a[of "\<lambda>c. c = CHR ''.''" "\<lambda>c. c = CHR ''-''"] b[of "\<lambda>c. c = CHR ''-''" 60] by (auto split: if_splits)
qed

lemma sanitizeTitle_chars:
  assumes "c \<in> set (sanitizeTitle t)"
  shows "c \<notin> set unsafePathChars \<and> \<not> isWhiteSpace c"
proof -
  let ?s1 = "map (\<lambda>c. if c \<in> set unsafePathChars then CHR ''-'' else c) t"
  let ?s2 = "replaceRuns isWhiteSpace False ?s1"
  let ?s3 = "replaceRuns (\<lambda>c. c = CHR ''-'') False ?s2"
  have s1: "\<forall>c \<in> set ?s1. c \<notin> set unsafePathChars" using dash_safe by auto
  have s2: "\<forall>c \<in> set ?s2. c \<notin> set unsafePathChars \<and> \<not> isWhiteSpace c"
    using set_replaceRuns[of isWhiteSpace False ?s1] s1 dash_safe by blast
  have s3: "\<forall>c \<in> set ?s3. c \<notin> set unsafePathChars \<and> \<not> isWhiteSpace c"
    using set_replaceRuns[of "\<lambda>c. c = CHR ''-''" False ?s2] s2 dash_safe by blast
  show ?thesis using s3 assms sanitizeTitle_subset[of t] by blast
qed

lemma trimEnd_prefix: "\<exists>rest. s = trimEnd p s @ rest"
proof -
  have "rev s = takeWhile p (rev s) @ dropWhile p (rev s)" by simp
  then have "s = rev (dropWhile p (rev s)) @ rev (takeWhile p (rev s))"
    by (metis rev_append rev_rev_ident)
  then show ?thesis unfolding trimEnd_def by blast
qed

lemma trimEnd_Nil: "trimEnd p [] = []"
  by (simp add: trimEnd_def)

lemma trimBoth_ends:
  "trimBoth p s = [] \<or> (\<not> p (hd (trimBoth p s)) \<and> \<not> p (last (trimBoth p s)))"
proof (cases "trimBoth p s = []")
  case True
  then show ?thesis by simp
next
  case False
  let ?d = "dropWhile p s"
  obtain rest where r: "?d = trimEnd p ?d @ rest" using trimEnd_prefix by blast
  have ne: "trimEnd p ?d \<noteq> []" using False by (simp add: trimBoth_def)
  have dne: "?d \<noteq> []"
  proof
    assume "?d = []"
    then show False using ne trimEnd_Nil[of p] by metis
  qed
  from dne have "?d \<noteq> []" .
  then have "\<not> p (hd ?d)" using hd_dropWhile by blast
  moreover have "hd ?d = hd (trimEnd p ?d)" using r ne by (metis hd_append2)
  ultimately show ?thesis using trimEnd_last[OF ne] by (simp add: trimBoth_def)
qed

lemma sanitizeChars_dots:
  "sanitizeChars t = [] \<or>
   (hd (sanitizeChars t) \<noteq> CHR ''.'' \<and> last (sanitizeChars t) \<noteq> CHR ''.'')"
  unfolding sanitizeChars_def dashTrimmed_def replacedTitle_def Let_def
  using trimBoth_ends[of "\<lambda>c. c = CHR ''.''"] by blast

lemma sanitizeTitle_cut:
  assumes "60 < length (sanitizeChars t)"
  shows "sanitizeTitle t = trimEnd (\<lambda>c. c = CHR ''-'') (take 60 (sanitizeChars t))"
    and "sanitizeTitle t = [] \<or> last (sanitizeTitle t) \<noteq> CHR ''-''"
proof -
  show a: "sanitizeTitle t = trimEnd (\<lambda>c. c = CHR ''-'') (take 60 (sanitizeChars t))"
    using assms by (simp add: sanitizeTitle_def Let_def)
  show "sanitizeTitle t = [] \<or> last (sanitizeTitle t) \<noteq> CHR ''-''"
    unfolding a using trimEnd_last[of "\<lambda>c. c = CHR ''-''" "take 60 (sanitizeChars t)"] by blast
qed

lemma sanitizeTitle_dot_dash: "sanitizeTitle ''.-a'' = ''-a''"
  by (simp add: sanitizeTitle_def sanitizeChars_def dashTrimmed_def replacedTitle_def unsafePathChars_def trimBoth_def trimEnd_def
      isWhiteSpace_def)

lemma sanitizeTitle_hello: "sanitizeTitle ''Hello/World??'' = ''Hello-World''"
  by (simp add: sanitizeTitle_def sanitizeChars_def dashTrimmed_def replacedTitle_def unsafePathChars_def trimBoth_def trimEnd_def
      isWhiteSpace_def)

lemma splitOn_hd: "hd (splitOn sep s) = takeWhile (\<lambda>c. c \<noteq> sep) s"
  by (induction s) (auto split: list.splits simp: splitOn_not_Nil)

lemma squeezeDashes_Nil: "squeezeDashes x = [] \<longleftrightarrow> x = []"
  by (induction x rule: squeezeDashes.induct) auto

lemma squeezeDashes_hd: "hd (squeezeDashes x) = hd x"
  by (induction x rule: squeezeDashes.induct) auto

lemma squeezeDashes_Cons:
  "squeezeDashes (c # x) =
     (if c = CHR ''-'' \<and> squeezeDashes x \<noteq> [] \<and> hd (squeezeDashes x) = CHR ''-''
      then squeezeDashes x else c # squeezeDashes x)"
  by (cases x) (auto simp: squeezeDashes_Nil squeezeDashes_hd)

lemma squeezeDashes_dash:
  "squeezeDashes (CHR ''-'' # cs) = CHR ''-'' # squeezeDashes (dropWhile (\<lambda>c. c = CHR ''-'') cs)"
  by (induction cs) auto

lemma replaceRuns_squeeze:
  "replaceRuns (\<lambda>c. c = CHR ''-'') b s =
     (if b then squeezeDashes (dropWhile (\<lambda>c. c = CHR ''-'') s) else squeezeDashes s)"
proof (induction s arbitrary: b)
  case Nil
  then show ?case by simp
next
  case (Cons c cs)
  show ?case
  proof (cases "c = CHR ''-''")
    case True
    then show ?thesis using Cons[of True] by (simp add: squeezeDashes_dash)
  next
    case False
    then show ?thesis using Cons[of False] by (cases cs) auto
  qed
qed

lemma squeeze_whiteSpace:
  "squeezeDashes (replaceRuns isWhiteSpace False s) =
     squeezeDashes (map (\<lambda>c. if isWhiteSpace c then CHR ''-'' else c) s)
   \<and> squeezeDashes (CHR ''-'' # replaceRuns isWhiteSpace True s) =
     squeezeDashes (CHR ''-'' # map (\<lambda>c. if isWhiteSpace c then CHR ''-'' else c) s)"
proof (induction s)
  case Nil
  then show ?case by simp
next
  case (Cons c cs)
  let ?m = "map (\<lambda>c. if isWhiteSpace c then CHR ''-'' else c)"
  from Cons have F: "squeezeDashes (replaceRuns isWhiteSpace False cs) = squeezeDashes (?m cs)"
    and T: "squeezeDashes (CHR ''-'' # replaceRuns isWhiteSpace True cs) = squeezeDashes (CHR ''-'' # ?m cs)"
    by blast+
  show ?case
  proof (cases "isWhiteSpace c")
    case True
    then show ?thesis using T by simp
  next
    case False
    have a: "squeezeDashes (c # replaceRuns isWhiteSpace False cs) = squeezeDashes (c # ?m cs)"
      using F by (simp only: squeezeDashes_Cons[of c])
    have b: "squeezeDashes (CHR ''-'' # c # replaceRuns isWhiteSpace False cs)
           = squeezeDashes (CHR ''-'' # c # ?m cs)"
      using a by (simp only: squeezeDashes_Cons[of "CHR ''-''"])
    show ?thesis using False a b by simp
  qed
qed

lemma replacedTitle_squeeze:
  "replacedTitle t =
     squeezeDashes (map (\<lambda>c. if c \<in> set unsafePathChars \<or> isWhiteSpace c then CHR ''-'' else c) t)"
proof -
  have m: "map (\<lambda>c. if isWhiteSpace c then CHR ''-'' else c)
             (map (\<lambda>c. if c \<in> set unsafePathChars then CHR ''-'' else c) t)
         = map (\<lambda>c. if c \<in> set unsafePathChars \<or> isWhiteSpace c then CHR ''-'' else c) t"
    using dash_safe by auto
  show ?thesis
    unfolding replacedTitle_def Let_def
    by (simp only: replaceRuns_squeeze if_False squeeze_whiteSpace m)
qed

lemma all_same: "\<forall>c \<in> set xs. c = x \<Longrightarrow> xs = replicate (length xs) x"
  by (induction xs) auto

lemma trimEnd_replicate: "\<exists>b. s = trimEnd (\<lambda>c. c = x) s @ replicate b x"
proof -
  let ?p = "\<lambda>c. c = x"
  have "rev s = takeWhile ?p (rev s) @ dropWhile ?p (rev s)" by simp
  then have a: "s = rev (dropWhile ?p (rev s)) @ rev (takeWhile ?p (rev s))"
    by (metis rev_append rev_rev_ident)
  have "\<forall>c \<in> set (rev (takeWhile ?p (rev s))). c = x"
    using set_takeWhileD by fastforce
  then have "rev (takeWhile ?p (rev s)) = replicate (length (rev (takeWhile ?p (rev s)))) x"
    by (rule all_same)
  then show ?thesis using a unfolding trimEnd_def by metis
qed

lemma trimBoth_replicate: "\<exists>a b. s = replicate a x @ trimBoth (\<lambda>c. c = x) s @ replicate b x"
proof -
  let ?p = "\<lambda>c. c = x"
  have "\<forall>c \<in> set (takeWhile ?p s). c = x" using set_takeWhileD by fastforce
  then have "takeWhile ?p s = replicate (length (takeWhile ?p s)) x"
    by (rule all_same)
  moreover have "s = takeWhile ?p s @ dropWhile ?p s" by simp
  moreover obtain b where "dropWhile ?p s = trimEnd ?p (dropWhile ?p s) @ replicate b x"
    using trimEnd_replicate by blast
  ultimately show ?thesis unfolding trimBoth_def by metis
qed

lemma dashTrimmed_ends:
  "dashTrimmed t = [] \<or> (hd (dashTrimmed t) \<noteq> CHR ''-'' \<and> last (dashTrimmed t) \<noteq> CHR ''-'')"
  unfolding dashTrimmed_def using trimBoth_ends[of "\<lambda>c. c = CHR ''-''"] by blast

lemma sanitizeTitle_short: "length (sanitizeChars t) \<le> 60 \<Longrightarrow> sanitizeTitle t = sanitizeChars t"
  by (simp add: sanitizeTitle_def Let_def)

lemma sanitizeTitle_dotted:
  "sanitizeTitle dottedTitle = ''Minutes-of-the-general-assembly-of-the-reading-club-in-June.''"
  by (simp add: dottedTitle_def sanitizeTitle_def sanitizeChars_def dashTrimmed_def replacedTitle_def unsafePathChars_def trimBoth_def trimEnd_def
      isWhiteSpace_def)

lemma sanitizeTitle_dash_dot: "sanitizeTitle ''a-.'' = ''a-''"
  by (simp add: sanitizeTitle_def sanitizeChars_def dashTrimmed_def replacedTitle_def unsafePathChars_def trimBoth_def trimEnd_def
      isWhiteSpace_def)

lemma sanitizeSiYuanPath_dated:
  "date_toISOString P created = Some isoStr \<Longrightarrow>
     sanitizeSiYuanPath P t created =
       Inr (takeWhile (\<lambda>c. c \<noteq> CHR ''T'') isoStr @ ''-'' @
            (if sanitizeTitle t = [] then ''bookmark-'' @ takeWhile (\<lambda>c. c \<noteq> CHR ''T'') isoStr
             else sanitizeTitle t))"
  by (simp add: sanitizeSiYuanPath_def isoDay_def Let_def splitOn_hd)

lemma sanitizeSiYuanPath_undated:
  "date_toISOString P created = None \<Longrightarrow>
     sanitizeSiYuanPath P t created = Inl (RangeError ''Invalid time value'')"
  by (simp add: sanitizeSiYuanPath_def isoDay_def)

lemma sanitizeTitle_cut_replicate:
  assumes "60 < length (sanitizeChars t)"
  shows "\<exists>b. take 60 (sanitizeChars t) = sanitizeTitle t @ replicate b (CHR ''-'')"
  using sanitizeTitle_cut(1)[OF assms] trimEnd_replicate[of "take 60 (sanitizeChars t)" "CHR ''-''"]
  by simp

lemma trimEnd_unique:
  assumes "s = u @ replicate b x" and "u = [] \<or> last u \<noteq> x"
  shows "trimEnd (\<lambda>c. c = x) s = u"
proof -
  have a: "dropWhile (\<lambda>c. c = x) (replicate b x @ rev u) = dropWhile (\<lambda>c. c = x) (rev u)"
    by (induction b) auto
  have "dropWhile (\<lambda>c. c = x) (rev u) = rev u"
    using assms(2) by (cases u rule: rev_cases) auto
  then show ?thesis using a assms(1) by (simp add: trimEnd_def)
qed

text \<open>
  Claim C4, as amended. \<open>sanitizeSiYuanPath\<close> is a function of the title, of \<open>createdAt\<close>
  and of what the engine's \<open>Date\<close> makes of \<open>createdAt\<close>, and of nothing else. When
  \<open>Date\<close> makes no date of \<open>createdAt\<close> it throws \<open>RangeError\<close>. Otherwise the path is
  the day (the ISO string up to its \<open>T\<close>), a dash and the sanitized title, or
  \<open>bookmark-\<close> and the day when the sanitized title is empty; title \<open>Hello/World??\<close>
  created at \<open>2024-03-01T00:00:00Z\<close> gives \<open>2024-03-01-Hello-World\<close>. The title is
  sanitized in this order:
  \<^item> every unsafe character and every white space becomes a dash, and dashes in a row
    are collapsed to one;
  \<^item> then the leading and trailing dashes are removed: what is left neither starts nor
    ends with a dash;
  \<^item> then the leading and trailing dots are removed: what is left neither starts nor
    ends with a dot (it may start or end with a dash that stood next to a removed dot);
  \<^item> then a title of more than 60 characters is cut to its first 60 characters and the
    trailing dashes of these are removed (a trailing dot is not); a title of at most 60
    characters is left as it is.

  The sanitized title has at most 60 characters, no two dashes in a row, none of the
  unsafe characters and no white space.
\<close>

theorem sanitizeSiYuanPath_pure:
  "(date_toISOString P ''2024-03-01T00:00:00Z'' = Some ''2024-03-01T00:00:00.000Z'' \<longrightarrow>
      sanitizeSiYuanPath P ''Hello/World??'' ''2024-03-01T00:00:00Z'' = Inr ''2024-03-01-Hello-World'')
   \<and> (date_toISOString P' created = date_toISOString P created \<longrightarrow>
        sanitizeSiYuanPath P' t created = sanitizeSiYuanPath P t created)
   \<and> (date_toISOString P created = None \<longrightarrow>
        sanitizeSiYuanPath P t created = Inl (RangeError ''Invalid time value''))
   \<and> (\<forall>isoStr. date_toISOString P created = Some isoStr \<longrightarrow>
        sanitizeSiYuanPath P t created =
          Inr (takeWhile (\<lambda>c. c \<noteq> CHR ''T'') isoStr @ ''-'' @
               (if sanitizeTitle t = []
                then ''bookmark-'' @ takeWhile (\<lambda>c. c \<noteq> CHR ''T'') isoStr
                else sanitizeTitle t)))
   \<and> replacedTitle t =
        squeezeDashes
          (map (\<lambda>c. if c \<in> set unsafePathChars \<or> isWhiteSpace c then CHR ''-'' else c) t)
   \<and> (\<exists>a b. replacedTitle t = replicate a (CHR ''-'') @ dashTrimmed t @ replicate b (CHR ''-''))
   \<and> (dashTrimmed t = [] \<or>
        (hd (dashTrimmed t) \<noteq> CHR ''-'' \<and> last (dashTrimmed t) \<noteq> CHR ''-''))
   \<and> (\<exists>a b. dashTrimmed t = replicate a (CHR ''.'') @ sanitizeChars t @ replicate b (CHR ''.''))
   \<and> (sanitizeChars t = [] \<or>
        (hd (sanitizeChars t) \<noteq> CHR ''.'' \<and> last (sanitizeChars t) \<noteq> CHR ''.''))
   \<and> (length (sanitizeChars t) \<le> 60 \<longrightarrow> sanitizeTitle t = sanitizeChars t)
   \<and> (60 < length (sanitizeChars t) \<longrightarrow>
        (\<exists>b. take 60 (sanitizeChars t) = sanitizeTitle t @ replicate b (CHR ''-''))
        \<and> (sanitizeTitle t = [] \<or> last (sanitizeTitle t) \<noteq> CHR ''-''))
   \<and> length (sanitizeTitle t) \<le> 60
   \<and> noDoubleDash (sanitizeTitle t)
   \<and> (\<forall>c \<in> set (sanitizeTitle t). c \<notin> set unsafePathChars \<and> \<not> isWhiteSpace c)"
proof (intro conjI impI allI ballI)
  assume "date_toISOString P ''2024-03-01T00:00:00Z'' = Some ''2024-03-01T00:00:00.000Z''"
  then show "sanitizeSiYuanPath P ''Hello/World??'' ''2024-03-01T00:00:00Z'' = Inr ''2024-03-01-Hello-World''"
    by (simp add: sanitizeSiYuanPath_dated sanitizeTitle_hello)
next
  assume "date_toISOString P' created = date_toISOString P created"
  then show "sanitizeSiYuanPath P' t created = sanitizeSiYuanPath P t created"
    by (simp add: sanitizeSiYuanPath_def isoDay_def)
next
  assume "date_toISOString P created = None"
  then show "sanitizeSiYuanPath P t created = Inl (RangeError ''Invalid time value'')"
    by (rule sanitizeSiYuanPath_undated)
next
  fix isoStr assume "date_toISOString P created = Some isoStr"
  then show "sanitizeSiYuanPath P t created =
          Inr (takeWhile (\<lambda>c. c \<noteq> CHR ''T'') isoStr @ ''-'' @
               (if sanitizeTitle t = []
                then ''bookmark-'' @ takeWhile (\<lambda>c. c \<noteq> CHR ''T'') isoStr
                else sanitizeTitle t))"
    by (rule sanitizeSiYuanPath_dated)
next
  show "replacedTitle t =
        squeezeDashes
          (map (\<lambda>c. if c \<in> set unsafePathChars \<or> isWhiteSpace c then CHR ''-'' else c) t)"
    by (rule replacedTitle_squeeze)
next
  show "\<exists>a b. replacedTitle t = replicate a (CHR ''-'') @ dashTrimmed t @ replicate b (CHR ''-'')"
    unfolding dashTrimmed_def by (rule trimBoth_replicate)
next
  show "dashTrimmed t = [] \<or>
        (hd (dashTrimmed t) \<noteq> CHR ''-'' \<and> last (dashTrimmed t) \<noteq> CHR ''-'')"
    by (rule dashTrimmed_ends)
next
  show "\<exists>a b. dashTrimmed t = replicate a (CHR ''.'') @ sanitizeChars t @ replicate b (CHR ''.'')"
    unfolding sanitizeChars_def by (rule trimBoth_replicate)
next
  show "sanitizeChars t = [] \<or>
        (hd (sanitizeChars t) \<noteq> CHR ''.'' \<and> last (sanitizeChars t) \<noteq> CHR ''.'')"
    by (rule sanitizeChars_dots)
next
  assume "length (sanitizeChars t) \<le> 60"
  then show "sanitizeTitle t = sanitizeChars t" by (rule sanitizeTitle_short)
next
  assume "60 < length (sanitizeChars t)"
  then show "\<exists>b. take 60 (sanitizeChars t) = sanitizeTitle t @ replicate b (CHR ''-'')"
    by (rule sanitizeTitle_cut_replicate)
next
  assume "60 < length (sanitizeChars t)"
  then show "sanitizeTitle t = [] \<or> last (sanitizeTitle t) \<noteq> CHR ''-''"
    by (rule sanitizeTitle_cut)
next
  show "length (sanitizeTitle t) \<le> 60" by (rule sanitizeTitle_length)
next
  show "noDoubleDash (sanitizeTitle t)" by (rule sanitizeTitle_dashes)
next
  fix c assume "c \<in> set (sanitizeTitle t)"
  then show "c \<notin> set unsafePathChars" using sanitizeTitle_chars by blast
next
  fix c assume "c \<in> set (sanitizeTitle t)"
  then show "\<not> isWhiteSpace c" using sanitizeTitle_chars by blast
qed

lemma sanitizeChars_long:
  "sanitizeChars longTitle
      = ''The-quick-brown-fox-jumps-over-the-lazy-dog-again-and-again-and-again''"
  by (simp add: longTitle_def sanitizeChars_def dashTrimmed_def replacedTitle_def
      unsafePathChars_def trimBoth_def trimEnd_def isWhiteSpace_def)

lemma sanitizeChars_samples:
  "sanitizeChars ''Hello/World??'' = ''Hello-World''" "sanitizeChars ''??'' = []"
  by (simp_all add: sanitizeChars_def dashTrimmed_def replacedTitle_def
      unsafePathChars_def trimBoth_def trimEnd_def isWhiteSpace_def)

lemma engine_dates:
  "date_toISOString engine ''2024-03-01T00:00:00Z'' = Some ''2024-03-01T00:00:00.000Z''"
  "date_toISOString engine ''yesterday'' = None"
  by (simp_all add: engine_def)

theorem sanitizeSiYuanPath_pure_witness:
  "date_toISOString engine ''2024-03-01T00:00:00Z'' = Some ''2024-03-01T00:00:00.000Z''
   \<and> sanitizeSiYuanPath engine ''Hello/World??'' ''2024-03-01T00:00:00Z''
       = Inr ''2024-03-01-Hello-World''
   \<and> 60 < length (sanitizeChars longTitle)
   \<and> sanitizeTitle longTitle = ''The-quick-brown-fox-jumps-over-the-lazy-dog-again-and-again''
   \<and> sanitizeSiYuanPath engine longTitle ''2024-03-01T00:00:00Z''
       = Inr ''2024-03-01-The-quick-brown-fox-jumps-over-the-lazy-dog-again-and-again''
   \<and> CHR ''-'' \<in> set (sanitizeTitle longTitle)
   \<and> CHR ''-'' \<notin> set unsafePathChars \<and> \<not> isWhiteSpace (CHR ''-'')
   \<and> date_toISOString engine ''yesterday'' = None
   \<and> sanitizeSiYuanPath engine ''Hello/World??'' ''yesterday'' = Inl (RangeError ''Invalid time value'')
   \<and> length (sanitizeChars ''Hello/World??'') \<le> 60
   \<and> sanitizeTitle ''Hello/World??'' = ''Hello-World''
   \<and> sanitizeSiYuanPath engine ''??'' ''2024-03-01T00:00:00Z'' = Inr ''2024-03-01-bookmark-2024-03-01''"
proof -
  note T = sanitizeSiYuanPath_pure[where P = engine and P' = engine
      and created = "''2024-03-01T00:00:00Z''" and t = longTitle]
  note U = sanitizeSiYuanPath_pure[where P = engine and P' = engine
      and created = "''yesterday''" and t = "''Hello/World??''"]
  note V = sanitizeSiYuanPath_pure[where P = engine and P' = engine
      and created = "''2024-03-01T00:00:00Z''" and t = "''??''"]
  note h1 = engine_dates(1)
  note h2 = engine_dates(2)
  have h3: "60 < length (sanitizeChars longTitle)"
    by (simp add: sanitizeChars_long)
  from T h3 obtain b where
    b: "take 60 (sanitizeChars longTitle) = sanitizeTitle longTitle @ replicate b (CHR ''-'')"
    and l: "sanitizeTitle longTitle = [] \<or> last (sanitizeTitle longTitle) \<noteq> CHR ''-''"
    by blast
  have cut: "sanitizeTitle longTitle
      = ''The-quick-brown-fox-jumps-over-the-lazy-dog-again-and-again''"
    using trimEnd_unique[OF b l] by (simp add: sanitizeChars_long trimEnd_def)
  have c1: "sanitizeSiYuanPath engine ''Hello/World??'' ''2024-03-01T00:00:00Z''
       = Inr ''2024-03-01-Hello-World''"
    using T h1 by blast
  have c2: "sanitizeSiYuanPath engine longTitle ''2024-03-01T00:00:00Z''
       = Inr ''2024-03-01-The-quick-brown-fox-jumps-over-the-lazy-dog-again-and-again''"
    using T h1 by (simp add: cut)
  have c3: "CHR ''-'' \<in> set (sanitizeTitle longTitle)"
    by (simp add: cut)
  have c4: "CHR ''-'' \<notin> set unsafePathChars \<and> \<not> isWhiteSpace (CHR ''-'')"
    using T c3 by blast
  have c5: "sanitizeSiYuanPath engine ''Hello/World??'' ''yesterday'' = Inl (RangeError ''Invalid time value'')"
    using U h2 by blast
  have h4: "length (sanitizeChars ''Hello/World??'') \<le> 60"
    by (simp add: sanitizeChars_samples)
  have c6: "sanitizeTitle ''Hello/World??'' = ''Hello-World''"
    using U h4 by (simp add: sanitizeChars_samples)
  have h5: "length (sanitizeChars ''??'') \<le> 60"
    by (simp add: sanitizeChars_samples)
  have e: "sanitizeTitle ''??'' = []"
    using V h5 by (simp add: sanitizeChars_samples)
  have c7: "sanitizeSiYuanPath engine ''??'' ''2024-03-01T00:00:00Z'' = Inr ''2024-03-01-bookmark-2024-03-01''"
    using V h1 by (simp add: e)
  show ?thesis using h1 h2 h3 h4 cut c1 c2 c3 c4 c5 c6 c7 by blast
qed

text \<open>
  The claim as stated fails where it has the leading and trailing dashes and dots
  trimmed from the result: the dots are trimmed after the dashes, once, and the cut
  trims dashes only. The title \<open>.-a\<close> gives a path whose title part starts with a dash,
  \<open>a-.\<close> one that ends with a dash, and a title cut after a dot one that ends with the
  dot. It also fails where it has every pair yield a path: a \<open>createdAt\<close> that is no
  date yields none.
\<close>

theorem sanitizeSiYuanPath_trim_counterexample:
  "sanitizeSiYuanPath engine ''.-a'' ''2024-03-01T00:00:00Z'' = Inr ''2024-03-01--a''
   \<and> sanitizeSiYuanPath engine ''a-.'' ''2024-03-01T00:00:00Z'' = Inr ''2024-03-01-a-''
   \<and> sanitizeSiYuanPath engine dottedTitle ''2024-03-01T00:00:00Z''
       = Inr ''2024-03-01-Minutes-of-the-general-assembly-of-the-reading-club-in-June.''
   \<and> sanitizeSiYuanPath engine ''Hello/World??'' ''yesterday''
       = Inl (RangeError ''Invalid time value'')"
  by (simp add: sanitizeSiYuanPath_dated sanitizeSiYuanPath_undated engine_dates
      sanitizeTitle_dot_dash sanitizeTitle_dash_dot sanitizeTitle_dotted)

section \<open>Title derivation\<close>







section \<open>Existence lookup\<close>

lemma findExisting_cases:
  "findExistingDocIdByKarakeepId nb kid w =
     (case nextReply (sql_replies w) of
        (Throws e, rest) \<Rightarrow>
          (Inl e, w\<lparr>console := console w @ [Info, Err], sql_replies := rest,
                    requests := requests w @ [SqlQuery nb kid]\<rparr>)
      | (Reply code msg dat, rest) \<Rightarrow>
          (if code = 0 then
             (case dat of Some (r # rows) \<Rightarrow> Inr (Some r) | _ \<Rightarrow> Inr None,
              w\<lparr>console := console w @ [Info, Info], sql_replies := rest,
                requests := requests w @ [SqlQuery nb kid]\<rparr>)
           else
             (Inr None,
              w\<lparr>console := console w @ [Info, Err], sql_replies := rest,
                requests := requests w @ [SqlQuery nb kid]\<rparr>)))"
  by (auto simp add: findExistingDocIdByKarakeepId_def post_sql_def logInfo_def logError_def
      split: prod.splits reply.splits option.splits list.splits)

text \<open>
  Claim C8, as amended. \<open>findExistingDocIdByKarakeepId\<close> returns null when the query
  succeeds with no row (or with no data), returns the id of the first row when there
  is one, and returns null, after logging an error, when the kernel answers the query
  with a code other than 0. When the request itself throws, the exception is logged
  and thrown again to the caller.
\<close>

theorem findExistingDocIdByKarakeepId_null:
  "(sql_replies w = Reply 0 msg None # rest \<or> sql_replies w = Reply 0 msg (Some []) # rest \<longrightarrow>
      fst (findExistingDocIdByKarakeepId nb kid w) = Inr None)
   \<and> (sql_replies w = Reply 0 msg (Some (r # rows)) # rest \<longrightarrow>
        fst (findExistingDocIdByKarakeepId nb kid w) = Inr (Some r))
   \<and> (sql_replies w = Reply code msg dat # rest \<and> code \<noteq> 0 \<longrightarrow>
        fst (findExistingDocIdByKarakeepId nb kid w) = Inr None
        \<and> console (snd (findExistingDocIdByKarakeepId nb kid w)) = console w @ [Info, Err])
   \<and> (sql_replies w = Throws e # rest \<longrightarrow>
        fst (findExistingDocIdByKarakeepId nb kid w) = Inl e
        \<and> console (snd (findExistingDocIdByKarakeepId nb kid w)) = console w @ [Info, Err])"
  by (auto simp add: findExisting_cases nextReply_def)

theorem findExistingDocIdByKarakeepId_null_witness:
  "fst (findExistingDocIdByKarakeepId ''notebook1'' ''bm1''
          (quietWorld\<lparr>sql_replies := [Reply 0 [] (Some [])]\<rparr>)) = Inr None
   \<and> fst (findExistingDocIdByKarakeepId ''notebook1'' ''bm1''
          (quietWorld\<lparr>sql_replies := [Reply 0 [] (Some [''doc1''])]\<rparr>)) = Inr (Some ''doc1'')
   \<and> fst (findExistingDocIdByKarakeepId ''notebook1'' ''bm1''
          (quietWorld\<lparr>sql_replies := [Reply (-1) ''no such table'' None]\<rparr>)) = Inr None
   \<and> console (snd (findExistingDocIdByKarakeepId ''notebook1'' ''bm1''
          (quietWorld\<lparr>sql_replies := [Reply (-1) ''no such table'' None]\<rparr>))) = [Info, Err]
   \<and> console (snd (findExistingDocIdByKarakeepId ''notebook1'' ''bm1''
          (quietWorld\<lparr>sql_replies := [Throws (TypeError ''Failed to fetch'')]\<rparr>))) = [Info, Err]"
proof -
  have a: "fst (findExistingDocIdByKarakeepId ''notebook1'' ''bm1''
          (quietWorld\<lparr>sql_replies := [Reply 0 [] (Some [])]\<rparr>)) = Inr None"
    using findExistingDocIdByKarakeepId_null[where w = "quietWorld\<lparr>sql_replies := [Reply 0 [] (Some [])]\<rparr>"
        and msg = "[]" and rest = "[]" and nb = "''notebook1''" and kid = "''bm1''"]
    by simp
  have b: "fst (findExistingDocIdByKarakeepId ''notebook1'' ''bm1''
          (quietWorld\<lparr>sql_replies := [Reply 0 [] (Some [''doc1''])]\<rparr>)) = Inr (Some ''doc1'')"
    using findExistingDocIdByKarakeepId_null[where
        w = "quietWorld\<lparr>sql_replies := [Reply 0 [] (Some [''doc1''])]\<rparr>" and msg = "[]"
        and rest = "[]" and r = "''doc1''" and rows = "[]" and nb = "''notebook1''" and kid = "''bm1''"]
    by simp
  have c: "fst (findExistingDocIdByKarakeepId ''notebook1'' ''bm1''
          (quietWorld\<lparr>sql_replies := [Reply (-1) ''no such table'' None]\<rparr>)) = Inr None
     \<and> console (snd (findExistingDocIdByKarakeepId ''notebook1'' ''bm1''
          (quietWorld\<lparr>sql_replies := [Reply (-1) ''no such table'' None]\<rparr>))) = [Info, Err]"
    using findExistingDocIdByKarakeepId_null[where
        w = "quietWorld\<lparr>sql_replies := [Reply (-1) ''no such table'' None]\<rparr>"
        and msg = "''no such table''" and rest = "[]" and code = "-1" and dat = None
        and nb = "''notebook1''" and kid = "''bm1''"]
    by (simp add: quietWorld_def)
  have d: "console (snd (findExistingDocIdByKarakeepId ''notebook1'' ''bm1''
          (quietWorld\<lparr>sql_replies := [Throws (TypeError ''Failed to fetch'')]\<rparr>))) = [Info, Err]"
    using findExistingDocIdByKarakeepId_null[where
        w = "quietWorld\<lparr>sql_replies := [Throws (TypeError ''Failed to fetch'')]\<rparr>"
        and rest = "[]" and e = "TypeError ''Failed to fetch''"
        and nb = "''notebook1''" and kid = "''bm1''"]
    by (simp add: quietWorld_def)
  show ?thesis using a b c d by blast
qed

text \<open>The claim as stated fails: a network error of the query is propagated.\<close>

theorem findExistingDocIdByKarakeepId_throws_counterexample:
  "fst (findExistingDocIdByKarakeepId ''notebook1'' ''bm1''
          (quietWorld\<lparr>sql_replies := [Throws (TypeError ''Failed to fetch'')]\<rparr>))
     = Inl (TypeError ''Failed to fetch'')"
  by (simp add: findExisting_cases nextReply_def)

section \<open>Asset pipeline\<close>

lemma assetAuthorization_scripts:
  "download_replies (snd (assetAuthorization P st assetUrl w)) = download_replies w"
  "upload_replies (snd (assetAuthorization P st assetUrl w)) = upload_replies w"
  by (simp_all add: assetAuthorization_def logWarn_def split: option.splits)

lemma fetchAsset_result:
  "fst (fetchAsset assetUrl auth w) =
     (case download_replies w of [] \<Rightarrow> FetchThrows (TypeError ''Failed to fetch'') | d # ds \<Rightarrow> d)"
  "upload_replies (snd (fetchAsset assetUrl auth w)) = upload_replies w"
  by (simp_all add: fetchAsset_def split: list.splits)

lemma uploadToSiYuan_result:
  "fst (uploadToSiYuan st fname contentType w) =
     (case upload_replies w of
        [] \<Rightarrow> Inl (TypeError ''Failed to fetch'')
      | Throws e # us \<Rightarrow> Inl e
      | Reply code msg dat # us \<Rightarrow> Inr (uploadOutcome (upload_replies w) fname))"
  by (simp add: uploadToSiYuan_def post_upload_def nextReply_def uploadOutcome_def Let_def
      logInfo_def logWarn_def split: list.splits reply.splits option.splits)

lemma downloadAndUploadAsset_try_result:
  "fst (downloadAndUploadAsset_try P st assetUrl idHint titleHint w) =
     (case download_replies w of
        [] \<Rightarrow> Inl (TypeError ''Failed to fetch'')
      | FetchThrows e # ds \<Rightarrow> Inl e
      | Responds response # ds \<Rightarrow>
          if \<not> ok response then Inr None
          else (case arrayBuffer response of
                  Inl e \<Rightarrow> Inl e
                | Inr buffer \<Rightarrow>
                    (case upload_replies w of
                       [] \<Rightarrow> Inl (TypeError ''Failed to fetch'')
                     | Throws e # us \<Rightarrow> Inl e
                     | Reply code msg dat # us \<Rightarrow>
                         Inr (uploadOutcome (upload_replies w)
                                (assetFileName P assetUrl idHint titleHint
                                   (contentTypeOf response))))))"
proof -
  obtain auth w1 where a: "assetAuthorization P st assetUrl w = (auth, w1)"
    by (cases "assetAuthorization P st assetUrl w")
  have d1: "download_replies w1 = download_replies w" and u1: "upload_replies w1 = upload_replies w"
    using assetAuthorization_scripts[of P st assetUrl w] a by simp_all
  obtain d w2 where f: "fetchAsset assetUrl auth w1 = (d, w2)"
    by (cases "fetchAsset assetUrl auth w1")
  have dd: "d = (case download_replies w of [] \<Rightarrow> FetchThrows (TypeError ''Failed to fetch'')
                 | d # ds \<Rightarrow> d)"
    using fetchAsset_result(1)[of assetUrl auth w1] f d1 by simp
  have u2: "upload_replies w2 = upload_replies w"
    using fetchAsset_result(2)[of assetUrl auth w1] f u1 by simp
  show ?thesis
  proof (cases d)
    case (FetchThrows e)
    then show ?thesis using a f dd
      by (simp add: downloadAndUploadAsset_try_def split: list.splits)
  next
    case (Responds response)
    then have dr: "\<exists>ds. download_replies w = Responds response # ds"
      using dd by (cases "download_replies w") auto
    show ?thesis using a f Responds dr u2
      by (auto simp add: downloadAndUploadAsset_try_def uploadToSiYuan_result Let_def
          split: sum.splits list.splits reply.splits)
  qed
qed

lemma downloadAndUploadAsset_fst:
  "fst (downloadAndUploadAsset P st assetUrl idHint titleHint w) =
     Inr (case fst (downloadAndUploadAsset_try P st assetUrl idHint titleHint (logInfo w)) of
            Inl e \<Rightarrow> None | Inr r \<Rightarrow> r)"
  by (cases "downloadAndUploadAsset_try P st assetUrl idHint titleHint (logInfo w)")
     (auto simp add: downloadAndUploadAsset_def split: sum.splits)

lemma scripts_logInfo:
  "download_replies (logInfo w) = download_replies w"
  "upload_replies (logInfo w) = upload_replies w"
  by (simp_all add: logInfo_def)

lemma downloadAndUploadAsset_result:
  "fst (downloadAndUploadAsset P st assetUrl idHint titleHint w) =
     Inr (case download_replies w of
            Responds response # ds \<Rightarrow>
              if ok response then
                (case arrayBuffer response of
                   Inl e \<Rightarrow> None
                 | Inr buffer \<Rightarrow>
                     uploadOutcome (upload_replies w)
                       (assetFileName P assetUrl idHint titleHint (contentTypeOf response)))
              else None
          | _ \<Rightarrow> None)"
  unfolding downloadAndUploadAsset_fst downloadAndUploadAsset_try_result scripts_logInfo
  by (simp add: uploadOutcome_def split: list.splits download.splits sum.splits reply.splits)

lemma assetAuthorization_effect:
  "fst (assetAuthorization P st assetUrl w) =
     (case url_parse P (apiEndpoint st) of
        None \<Rightarrow> None
      | Some parsed \<Rightarrow>
          if take (length (origin parsed)) assetUrl = origin parsed
          then Some (''Bearer '' @ apiKey st) else None)"
  "fetched (snd (assetAuthorization P st assetUrl w)) = fetched w"
  "requests (snd (assetAuthorization P st assetUrl w)) = requests w"
  "console (snd (assetAuthorization P st assetUrl w)) =
     console w @ (if url_parse P (apiEndpoint st) = None then [Warn] else [])"
  by (simp_all add: assetAuthorization_def logWarn_def startsWith_def split: option.splits)

lemma fetchAsset_effect:
  "fetched (snd (fetchAsset assetUrl auth w)) = fetched w @ [AssetGet assetUrl auth]"
  "requests (snd (fetchAsset assetUrl auth w)) = requests w"
  "console (snd (fetchAsset assetUrl auth w)) = console w"
  by (simp_all add: fetchAsset_def split: list.splits)

lemma uploadToSiYuan_effect:
  "fetched (snd (uploadToSiYuan st fname contentType w)) = fetched w"
  "requests (snd (uploadToSiYuan st fname contentType w)) =
     requests w @ [UploadAsset fname contentType
                     (if truthy (syncNotebookId st) then syncNotebookId st else None)]"
  "\<exists>rest. console (snd (uploadToSiYuan st fname contentType w)) = console w @ rest"
  by (simp_all add: uploadToSiYuan_def post_upload_def nextReply_def Let_def
      logInfo_def logWarn_def logError_def split: list.splits reply.splits option.splits)

lemma downloadAndUploadAsset_try_effect:
  "fetched (snd (downloadAndUploadAsset_try P st assetUrl idHint titleHint w)) =
     fetched w @ [AssetGet assetUrl (fst (assetAuthorization P st assetUrl w))]"
  "requests (snd (downloadAndUploadAsset_try P st assetUrl idHint titleHint w)) =
     requests w @
       (case download_replies w of
          Responds response # ds \<Rightarrow>
            if ok response then
              (case arrayBuffer response of
                 Inl e \<Rightarrow> []
               | Inr buffer \<Rightarrow>
                   [UploadAsset (assetFileName P assetUrl idHint titleHint (contentTypeOf response))
                      (contentTypeOf response)
                      (if truthy (syncNotebookId st) then syncNotebookId st else None)])
            else []
        | _ \<Rightarrow> [])"
  "\<exists>rest. console (snd (downloadAndUploadAsset_try P st assetUrl idHint titleHint w)) =
     console w @ (if url_parse P (apiEndpoint st) = None then [Warn] else []) @ rest"
proof -
  obtain auth w1 where a: "assetAuthorization P st assetUrl w = (auth, w1)"
    by (cases "assetAuthorization P st assetUrl w")
  have d1: "download_replies w1 = download_replies w"
    using assetAuthorization_scripts[of P st assetUrl w] a by simp
  have f1: "fetched w1 = fetched w" and r1: "requests w1 = requests w"
    and c1: "console w1 = console w @ (if url_parse P (apiEndpoint st) = None then [Warn] else [])"
    and au: "auth = fst (assetAuthorization P st assetUrl w)"
    using assetAuthorization_effect(2-4)[of P st assetUrl w] a by simp_all
  obtain d w2 where f: "fetchAsset assetUrl auth w1 = (d, w2)"
    by (cases "fetchAsset assetUrl auth w1")
  have dd: "d = (case download_replies w of [] \<Rightarrow> FetchThrows (TypeError ''Failed to fetch'')
                 | d # ds \<Rightarrow> d)"
    using fetchAsset_result(1)[of assetUrl auth w1] f d1 by simp
  have f2: "fetched w2 = fetched w @ [AssetGet assetUrl auth]" and r2: "requests w2 = requests w"
    and c2: "console w2 = console w @ (if url_parse P (apiEndpoint st) = None then [Warn] else [])"
    using fetchAsset_effect[of assetUrl auth w1] f f1 r1 c1 by simp_all
  let ?R = "downloadAndUploadAsset_try P st assetUrl idHint titleHint w"
  let ?fname = "\<lambda>response. assetFileName P assetUrl idHint titleHint (contentTypeOf response)"
  have cases:
    "(\<exists>e. d = FetchThrows e \<and> snd ?R = w2)
     \<or> (\<exists>response. d = Responds response \<and> \<not> ok response \<and>
           (snd ?R = logWarn w2 \<or> snd ?R = logError w2))
     \<or> (\<exists>response e. d = Responds response \<and> ok response \<and> arrayBuffer response = Inl e \<and>
           snd ?R = w2)
     \<or> (\<exists>response buffer. d = Responds response \<and> ok response \<and>
           arrayBuffer response = Inr buffer \<and>
           snd ?R = snd (uploadToSiYuan st (?fname response) (contentTypeOf response) w2))"
    using a f
    by (cases d) (auto simp add: downloadAndUploadAsset_try_def Let_def split: sum.splits)
  have notEmpty: "\<And>response. d = Responds response \<Longrightarrow> \<exists>ds. download_replies w = Responds response # ds"
    using dd by (cases "download_replies w") auto
  have thrown: "\<And>e. d = FetchThrows e \<Longrightarrow>
      download_replies w = [] \<or> (\<exists>ds. download_replies w = FetchThrows e # ds)"
    using dd by (cases "download_replies w") auto
  show "fetched (snd ?R) = fetched w @ [AssetGet assetUrl (fst (assetAuthorization P st assetUrl w))]"
    using cases f2 au uploadToSiYuan_effect(1)
    by (auto simp add: logWarn_def logError_def)
  show "requests (snd ?R) =
     requests w @
       (case download_replies w of
          Responds response # ds \<Rightarrow>
            if ok response then
              (case arrayBuffer response of
                 Inl e \<Rightarrow> []
               | Inr buffer \<Rightarrow>
                   [UploadAsset (assetFileName P assetUrl idHint titleHint (contentTypeOf response))
                      (contentTypeOf response)
                      (if truthy (syncNotebookId st) then syncNotebookId st else None)])
            else []
        | _ \<Rightarrow> [])"
    using cases
  proof (elim disjE exE conjE)
    fix e assume "d = FetchThrows e" "snd ?R = w2"
    then show ?thesis using thrown[of e] r2 by auto
  next
    fix response assume "d = Responds response" "\<not> ok response" "snd ?R = logWarn w2"
    then show ?thesis using notEmpty[of response] r2 by (auto simp add: logWarn_def)
  next
    fix response assume "d = Responds response" "\<not> ok response" "snd ?R = logError w2"
    then show ?thesis using notEmpty[of response] r2 by (auto simp add: logError_def)
  next
    fix response e assume "d = Responds response" "ok response" "arrayBuffer response = Inl e"
      "snd ?R = w2"
    then show ?thesis using notEmpty[of response] r2 by auto
  next
    fix response buffer assume "d = Responds response" "ok response"
      "arrayBuffer response = Inr buffer"
      "snd ?R = snd (uploadToSiYuan st (?fname response) (contentTypeOf response) w2)"
    then show ?thesis using notEmpty[of response] r2
        uploadToSiYuan_effect(2)[of st "?fname response" "contentTypeOf response" w2]
      by auto
  qed
  show "\<exists>rest. console (snd ?R) =
     console w @ (if url_parse P (apiEndpoint st) = None then [Warn] else []) @ rest"
    using cases
  proof (elim disjE exE conjE)
    fix e assume "snd ?R = w2"
    then show ?thesis using c2 by simp
  next
    fix response assume "snd ?R = logWarn w2"
    then show ?thesis using c2 by (simp add: logWarn_def)
  next
    fix response assume "snd ?R = logError w2"
    then show ?thesis using c2 by (simp add: logError_def)
  next
    fix response e assume "snd ?R = w2"
    then show ?thesis using c2 by simp
  next
    fix response buffer
    assume s: "snd ?R = snd (uploadToSiYuan st (?fname response) (contentTypeOf response) w2)"
    obtain rest where "console (snd (uploadToSiYuan st (?fname response) (contentTypeOf response) w2))
        = console w2 @ rest"
      using uploadToSiYuan_effect(3) by blast
    then show ?thesis using s c2 by simp
  qed
qed

lemma downloadAndUploadAsset_snd:
  "snd (downloadAndUploadAsset P st assetUrl idHint titleHint w) =
     snd (downloadAndUploadAsset_try P st assetUrl idHint titleHint (logInfo w))
   \<or> snd (downloadAndUploadAsset P st assetUrl idHint titleHint w) =
     logError (snd (downloadAndUploadAsset_try P st assetUrl idHint titleHint (logInfo w)))"
  by (cases "downloadAndUploadAsset_try P st assetUrl idHint titleHint (logInfo w)")
     (auto simp add: downloadAndUploadAsset_def split: sum.splits)

lemma downloadAndUploadAsset_effect:
  "fetched (snd (downloadAndUploadAsset P st assetUrl idHint titleHint w)) =
     fetched w @
       [AssetGet assetUrl
          (case url_parse P (apiEndpoint st) of
             None \<Rightarrow> None
           | Some parsed \<Rightarrow>
               if take (length (origin parsed)) assetUrl = origin parsed
               then Some (''Bearer '' @ apiKey st) else None)]"
  "requests (snd (downloadAndUploadAsset P st assetUrl idHint titleHint w)) =
     requests w @
       (case download_replies w of
          Responds response # ds \<Rightarrow>
            if ok response then
              (case arrayBuffer response of
                 Inl e \<Rightarrow> []
               | Inr buffer \<Rightarrow>
                   [UploadAsset (assetFileName P assetUrl idHint titleHint (contentTypeOf response))
                      (contentTypeOf response)
                      (if truthy (syncNotebookId st) then syncNotebookId st else None)])
            else []
        | _ \<Rightarrow> [])"
  "\<exists>rest. console (snd (downloadAndUploadAsset P st assetUrl idHint titleHint w)) =
     console w @ [Info] @ (if url_parse P (apiEndpoint st) = None then [Warn] else []) @ rest"
proof -
  let ?T = "downloadAndUploadAsset_try P st assetUrl idHint titleHint (logInfo w)"
  let ?R = "downloadAndUploadAsset P st assetUrl idHint titleHint w"
  note s = downloadAndUploadAsset_snd[of P st assetUrl idHint titleHint w]
  note t = downloadAndUploadAsset_try_effect[of P st assetUrl idHint titleHint "logInfo w"]
  have li: "fetched (logInfo w) = fetched w" "requests (logInfo w) = requests w"
    "console (logInfo w) = console w @ [Info]" "download_replies (logInfo w) = download_replies w"
    by (simp_all add: logInfo_def)
  show "fetched (snd ?R) =
     fetched w @
       [AssetGet assetUrl
          (case url_parse P (apiEndpoint st) of
             None \<Rightarrow> None
           | Some parsed \<Rightarrow>
               if take (length (origin parsed)) assetUrl = origin parsed
               then Some (''Bearer '' @ apiKey st) else None)]"
    using s t(1) li(1) assetAuthorization_effect(1)[of P st assetUrl "logInfo w"]
    by (auto simp add: logError_def)
  show "requests (snd ?R) =
     requests w @
       (case download_replies w of
          Responds response # ds \<Rightarrow>
            if ok response then
              (case arrayBuffer response of
                 Inl e \<Rightarrow> []
               | Inr buffer \<Rightarrow>
                   [UploadAsset (assetFileName P assetUrl idHint titleHint (contentTypeOf response))
                      (contentTypeOf response)
                      (if truthy (syncNotebookId st) then syncNotebookId st else None)])
            else []
        | _ \<Rightarrow> [])"
    using s t(2) li(2,4) by (auto simp add: logError_def)
  obtain rest where r: "console (snd ?T) =
     console (logInfo w) @ (if url_parse P (apiEndpoint st) = None then [Warn] else []) @ rest"
    using t(3) by blast
  show "\<exists>rest. console (snd ?R) =
     console w @ [Info] @ (if url_parse P (apiEndpoint st) = None then [Warn] else []) @ rest"
    using s
  proof
    assume "snd ?R = snd ?T"
    then show ?thesis using r li(3) by simp
  next
    assume "snd ?R = logError (snd ?T)"
    then have "console (snd ?R) = console (snd ?T) @ [Err]" by (simp add: logError_def)
    then show ?thesis using r li(3) by simp
  qed
qed

lemma assetFileName_synthesized:
  "url_parse P assetUrl = None \<Longrightarrow>
     assetFileName P assetUrl idHint titleHint contentType =
       map (\<lambda>c. if isWhiteSpace c then CHR ''_'' else c)
         (map (\<lambda>c. if c \<in> set unsafeFileChars then CHR ''-'' else c)
            ((if length idHint > 8 then take 8 idHint else idHint) @ ''-'' @
             (if titleHint = [] then ''asset''
              else take 20 (map (\<lambda>c. if isFileTitleChar c then c else CHR ''-'') titleHint)) @
             ''.'' @ getExtensionFromContentType P contentType []))"
  by (cases titleHint) (simp_all add: assetFileName_def Let_def)

text \<open>
  Claim C9, as amended. \<open>downloadAndUploadAsset\<close> never throws: it always returns a
  value. The value is null when the download response is not OK (whatever the status,
  404, 401 and 403 included), when \<open>fetch\<close> or reading the body throws, and when the
  upload fails (the request throws, the code is not 0, or the answer has no path for
  the file name). It is the path the kernel answers when the download is OK and the
  upload is acknowledged. Whether the endpoint or the asset URL parse as URLs decides
  neither:
  \<^item> the download is requested once in every case; when the endpoint does not parse, a
    warning is logged after the first line and the request carries no credential; when
    it parses, the request carries the bearer credential exactly when the asset URL
    starts with the endpoint's origin;
  \<^item> when the download is OK and its body is read, the upload is requested under the
    file name of step 2; when the asset URL does not parse, that name is the
    synthesized one: the first 8 characters of the id hint, a dash, the first 20
    characters of the cleaned title hint (or \<open>asset\<close>), a dot and the extension of the
    content type, with the unsafe characters and the white space replaced.
\<close>

theorem downloadAndUploadAsset_never_throws:
  "(\<exists>r. fst (downloadAndUploadAsset P st assetUrl idHint titleHint w) = Inr r)
   \<and> (download_replies w = Responds response # ds \<and> \<not> ok response \<longrightarrow>
        fst (downloadAndUploadAsset P st assetUrl idHint titleHint w) = Inr None)
   \<and> (download_replies w = FetchThrows e # ds \<or> download_replies w = [] \<longrightarrow>
        fst (downloadAndUploadAsset P st assetUrl idHint titleHint w) = Inr None)
   \<and> (download_replies w = Responds response # ds \<and> arrayBuffer response = Inl e \<longrightarrow>
        fst (downloadAndUploadAsset P st assetUrl idHint titleHint w) = Inr None)
   \<and> (uploadOutcome (upload_replies w)
          (assetFileName P assetUrl idHint titleHint (contentTypeOf response)) = None \<and>
        download_replies w = Responds response # ds \<longrightarrow>
        fst (downloadAndUploadAsset P st assetUrl idHint titleHint w) = Inr None)
   \<and> (download_replies w = Responds response # ds \<and> ok response \<and>
        arrayBuffer response = Inr buffer \<and>
        uploadOutcome (upload_replies w)
          (assetFileName P assetUrl idHint titleHint (contentTypeOf response)) = Some path \<longrightarrow>
        fst (downloadAndUploadAsset P st assetUrl idHint titleHint w) = Inr (Some path))
   \<and> (url_parse P (apiEndpoint st) = None \<longrightarrow>
        fetched (snd (downloadAndUploadAsset P st assetUrl idHint titleHint w)) =
          fetched w @ [AssetGet assetUrl None]
        \<and> (\<exists>rest. console (snd (downloadAndUploadAsset P st assetUrl idHint titleHint w)) =
              console w @ [Info, Warn] @ rest))
   \<and> (\<forall>parsed. url_parse P (apiEndpoint st) = Some parsed \<longrightarrow>
        fetched (snd (downloadAndUploadAsset P st assetUrl idHint titleHint w)) =
          fetched w @
            [AssetGet assetUrl
               (if take (length (origin parsed)) assetUrl = origin parsed
                then Some (''Bearer '' @ apiKey st) else None)])
   \<and> (download_replies w = Responds response # ds \<and> ok response \<and>
        arrayBuffer response = Inr buffer \<longrightarrow>
        requests (snd (downloadAndUploadAsset P st assetUrl idHint titleHint w)) =
          requests w @
            [UploadAsset (assetFileName P assetUrl idHint titleHint (contentTypeOf response))
               (contentTypeOf response)
               (if truthy (syncNotebookId st) then syncNotebookId st else None)])
   \<and> (url_parse P assetUrl = None \<longrightarrow>
        assetFileName P assetUrl idHint titleHint contentType =
          map (\<lambda>c. if isWhiteSpace c then CHR ''_'' else c)
            (map (\<lambda>c. if c \<in> set unsafeFileChars then CHR ''-'' else c)
               ((if length idHint > 8 then take 8 idHint else idHint) @ ''-'' @
                (if titleHint = [] then ''asset''
                 else take 20 (map (\<lambda>c. if isFileTitleChar c then c else CHR ''-'') titleHint)) @
                ''.'' @ getExtensionFromContentType P contentType [])))"
proof -
  let ?R = "downloadAndUploadAsset P st assetUrl idHint titleHint w"
  have result:
    "(\<exists>r. fst ?R = Inr r)
     \<and> (download_replies w = Responds response # ds \<and> \<not> ok response \<longrightarrow> fst ?R = Inr None)
     \<and> (download_replies w = FetchThrows e # ds \<or> download_replies w = [] \<longrightarrow> fst ?R = Inr None)
     \<and> (download_replies w = Responds response # ds \<and> arrayBuffer response = Inl e \<longrightarrow>
          fst ?R = Inr None)
     \<and> (uploadOutcome (upload_replies w)
            (assetFileName P assetUrl idHint titleHint (contentTypeOf response)) = None \<and>
          download_replies w = Responds response # ds \<longrightarrow> fst ?R = Inr None)
     \<and> (download_replies w = Responds response # ds \<and> ok response \<and>
          arrayBuffer response = Inr buffer \<and>
          uploadOutcome (upload_replies w)
            (assetFileName P assetUrl idHint titleHint (contentTypeOf response)) = Some path \<longrightarrow>
          fst ?R = Inr (Some path))"
    unfolding downloadAndUploadAsset_result
    by (auto split: sum.splits)
  note eff = downloadAndUploadAsset_effect[of P st assetUrl idHint titleHint w]
  have unparsed: "url_parse P (apiEndpoint st) = None \<longrightarrow>
        fetched (snd ?R) = fetched w @ [AssetGet assetUrl None]
        \<and> (\<exists>rest. console (snd ?R) = console w @ [Info, Warn] @ rest)"
    using eff(1,3) by auto
  have parsed: "\<forall>parsed. url_parse P (apiEndpoint st) = Some parsed \<longrightarrow>
        fetched (snd ?R) =
          fetched w @
            [AssetGet assetUrl
               (if take (length (origin parsed)) assetUrl = origin parsed
                then Some (''Bearer '' @ apiKey st) else None)]"
    using eff(1) by simp
  have uploaded: "download_replies w = Responds response # ds \<and> ok response \<and>
        arrayBuffer response = Inr buffer \<longrightarrow>
        requests (snd ?R) =
          requests w @
            [UploadAsset (assetFileName P assetUrl idHint titleHint (contentTypeOf response))
               (contentTypeOf response)
               (if truthy (syncNotebookId st) then syncNotebookId st else None)]"
    using eff(2) by simp
  have named: "url_parse P assetUrl = None \<longrightarrow>
        assetFileName P assetUrl idHint titleHint contentType =
          map (\<lambda>c. if isWhiteSpace c then CHR ''_'' else c)
            (map (\<lambda>c. if c \<in> set unsafeFileChars then CHR ''-'' else c)
               ((if length idHint > 8 then take 8 idHint else idHint) @ ''-'' @
                (if titleHint = [] then ''asset''
                 else take 20 (map (\<lambda>c. if isFileTitleChar c then c else CHR ''-'') titleHint)) @
                ''.'' @ getExtensionFromContentType P contentType []))"
    using assetFileName_synthesized by blast
  show ?thesis using result unparsed parsed uploaded named by (intro conjI) blast+
qed

lemma assetFileName_pic:
  "assetFileName engine ''https://img.example.org/pic.png'' ''bm1'' ''A picture'' ''image/png''
     = ''pic.png''"
  by (simp add: assetFileName_def engine_def unsafeFileChars_def isWhiteSpace_def)

lemma assetFileName_relative:
  "assetFileName engine ''assets/pic.png'' ''bm1'' ''A picture'' ''image/png''
     = ''bm1-A-picture.png''"
  by (simp add: assetFileName_def engine_def unsafeFileChars_def isWhiteSpace_def
      getExtensionFromContentType_def mimeMapMember_def mimeMap_def trim_def trimBoth_def trimEnd_def
      asciiLower_def isFileTitleChar_def Let_def)

lemma getExtensionFromContentType_samples:
  "getExtensionFromContentType engine ''image/png'' [] = ''png''"
  "getExtensionFromContentType engine ''Image/PNG; q=1'' [] = ''png''"
  "getExtensionFromContentType engine ''constructor'' [] = ''function Object() { [native code] }''"
  "getExtensionFromContentType engine ''__proto__'' [] = ''[object Object]''"
  "getExtensionFromContentType engine ''text/html'' [] = ''asset''"
  by code_simp+

theorem downloadAndUploadAsset_never_throws_witness:
  "fst (downloadAndUploadAsset engine sampleSettings ''https://img.example.org/pic.png'' ''bm1''
          ''A picture''
          (quietWorld\<lparr>download_replies := [Responds (pngResponse\<lparr>ok := False, http_status := 404\<rparr>)]\<rparr>))
     = Inr None
   \<and> fst (downloadAndUploadAsset engine sampleSettings ''https://img.example.org/pic.png'' ''bm1''
          ''A picture''
          (quietWorld\<lparr>download_replies := [FetchThrows (TypeError ''Failed to fetch'')]\<rparr>))
     = Inr None
   \<and> fst (downloadAndUploadAsset engine sampleSettings ''https://img.example.org/pic.png'' ''bm1''
          ''A picture''
          (quietWorld\<lparr>download_replies :=
             [Responds (pngResponse\<lparr>arrayBuffer := Inl (TypeError ''body stream'')\<rparr>)]\<rparr>))
     = Inr None
   \<and> fst (downloadAndUploadAsset engine sampleSettings ''https://img.example.org/pic.png'' ''bm1''
          ''A picture''
          (quietWorld\<lparr>download_replies := [Responds pngResponse],
                       upload_replies := [Reply (-1) ''disk full'' None]\<rparr>))
     = Inr None
   \<and> fst (downloadAndUploadAsset engine sampleSettings ''https://img.example.org/pic.png'' ''bm1''
          ''A picture''
          (quietWorld\<lparr>download_replies := [Responds pngResponse],
                       upload_replies :=
                         [Reply 0 [] (Some \<lparr>succMap = Some [(''pic.png'', ''assets/Karakeep-sync/pic.png'')],
                                            errFiles = None\<rparr>)]\<rparr>))
     = Inr (Some ''assets/Karakeep-sync/pic.png'')
   \<and> requests (snd (downloadAndUploadAsset engine sampleSettings ''https://img.example.org/pic.png''
          ''bm1'' ''A picture''
          (quietWorld\<lparr>download_replies := [Responds pngResponse],
                       upload_replies := [Reply (-1) ''disk full'' None]\<rparr>)))
     = [UploadAsset ''pic.png'' ''image/png'' (Some ''notebook1'')]
   \<and> url_parse engine (apiEndpoint sampleSettings)
     = Some \<lparr>origin = ''https://example.com'', hostname = ''example.com'', pathname = ''/''\<rparr>
   \<and> fetched (snd (downloadAndUploadAsset engine sampleSettings ''https://img.example.org/pic.png''
          ''bm1'' ''A picture'' quietWorld))
     = [AssetGet ''https://img.example.org/pic.png'' None]
   \<and> fetched (snd (downloadAndUploadAsset engine sampleSettings ''https://example.com/assets/a1''
          ''a1'' ''A picture'' quietWorld))
     = [AssetGet ''https://example.com/assets/a1'' (Some ''Bearer secret'')]
   \<and> url_parse engine (apiEndpoint (sampleSettings\<lparr>apiEndpoint := ''not a url''\<rparr>)) = None
   \<and> fetched (snd (downloadAndUploadAsset engine (sampleSettings\<lparr>apiEndpoint := ''not a url''\<rparr>)
          ''https://example.com/assets/a1'' ''a1'' ''A picture'' quietWorld))
     = [AssetGet ''https://example.com/assets/a1'' None]
   \<and> (\<exists>rest. console (snd (downloadAndUploadAsset engine
          (sampleSettings\<lparr>apiEndpoint := ''not a url''\<rparr>)
          ''https://example.com/assets/a1'' ''a1'' ''A picture'' quietWorld))
        = [Info, Warn] @ rest)
   \<and> url_parse engine ''assets/pic.png'' = None
   \<and> assetFileName engine ''assets/pic.png'' ''bm1'' ''A picture'' ''image/png''
     = ''bm1-A-picture.png''
   \<and> assetFileName engine ''assets/pic.png'' ''bm1'' ''A picture'' ''constructor''
     = ''bm1-A-picture.function_Object()_{_[native_code]_}''"
proof -
  let ?run = "downloadAndUploadAsset engine sampleSettings ''https://img.example.org/pic.png''
                ''bm1'' ''A picture''"
  let ?w1 = "quietWorld\<lparr>download_replies := [Responds (pngResponse\<lparr>ok := False, http_status := 404\<rparr>)]\<rparr>"
  let ?w2 = "quietWorld\<lparr>download_replies := [FetchThrows (TypeError ''Failed to fetch'')]\<rparr>"
  let ?w3 = "quietWorld\<lparr>download_replies :=
             [Responds (pngResponse\<lparr>arrayBuffer := Inl (TypeError ''body stream'')\<rparr>)]\<rparr>"
  let ?w4 = "quietWorld\<lparr>download_replies := [Responds pngResponse],
                       upload_replies := [Reply (-1) ''disk full'' None]\<rparr>"
  let ?w5 = "quietWorld\<lparr>download_replies := [Responds pngResponse],
                       upload_replies :=
                         [Reply 0 [] (Some \<lparr>succMap = Some [(''pic.png'', ''assets/Karakeep-sync/pic.png'')],
                                            errFiles = None\<rparr>)]\<rparr>"
  let ?st = "sampleSettings\<lparr>apiEndpoint := ''not a url''\<rparr>"
  let ?home = "\<lparr>origin = ''https://example.com'', hostname = ''example.com'', pathname = ''/''\<rparr>"
  have ct: "contentTypeOf pngResponse = ''image/png''"
    by (simp add: contentTypeOf_def pngResponse_def)
  have png: "ok pngResponse" "arrayBuffer pngResponse = Inr ''PNG''"
    by (simp_all add: pngResponse_def)
  have quiet: "fetched quietWorld = []" "console quietWorld = []" "requests quietWorld = []"
    "download_replies quietWorld = []"
    by (simp_all add: quietWorld_def)
  have st: "apiEndpoint sampleSettings = ''https://example.com/''" "apiKey sampleSettings = ''secret''"
    "syncNotebookId sampleSettings = Some ''notebook1''"
    by (simp_all add: sampleSettings_def)
  have u: "url_parse engine ''https://example.com/'' = Some ?home"
    "url_parse engine ''not a url'' = None" "url_parse engine ''assets/pic.png'' = None"
    by (simp_all add: engine_def)
  have a: "fst (?run ?w1) = Inr None"
    using downloadAndUploadAsset_never_throws[where w = ?w1 and ds = "[]"
        and response = "pngResponse\<lparr>ok := False, http_status := 404\<rparr>"]
    by simp
  have b: "fst (?run ?w2) = Inr None"
    using downloadAndUploadAsset_never_throws[where w = ?w2 and ds = "[]"
        and e = "TypeError ''Failed to fetch''"]
    by simp
  have c: "fst (?run ?w3) = Inr None"
    using downloadAndUploadAsset_never_throws[where w = ?w3 and ds = "[]"
        and e = "TypeError ''body stream''"
        and response = "pngResponse\<lparr>arrayBuffer := Inl (TypeError ''body stream'')\<rparr>"]
    by simp
  note T4 = downloadAndUploadAsset_never_throws[where w = ?w4 and ds = "[]"
        and response = pngResponse and P = engine and assetUrl = "''https://img.example.org/pic.png''"
        and idHint = "''bm1''" and titleHint = "''A picture''" and st = sampleSettings
        and buffer = "''PNG''"]
  have d: "fst (?run ?w4) = Inr None"
    using T4 by (simp add: uploadOutcome_def)
  have e: "fst (?run ?w5) = Inr (Some ''assets/Karakeep-sync/pic.png'')"
    using downloadAndUploadAsset_never_throws[where w = ?w5 and ds = "[]"
        and response = pngResponse and P = engine and assetUrl = "''https://img.example.org/pic.png''"
        and idHint = "''bm1''" and titleHint = "''A picture''" and st = sampleSettings
        and buffer = "''PNG''" and path = "''assets/Karakeep-sync/pic.png''"]
    by (simp add: uploadOutcome_def ct assetFileName_pic) (simp add: pngResponse_def)
  have f: "requests (snd (?run ?w4)) = [UploadAsset ''pic.png'' ''image/png'' (Some ''notebook1'')]"
    using T4 png by (simp add: ct assetFileName_pic st quiet)
  have g: "fetched (snd (?run quietWorld)) = [AssetGet ''https://img.example.org/pic.png'' None]"
    using downloadAndUploadAsset_never_throws[where w = quietWorld and P = engine
        and assetUrl = "''https://img.example.org/pic.png''"
        and idHint = "''bm1''" and titleHint = "''A picture''" and st = sampleSettings] u(1)
    by (simp add: st quiet)
  have h: "fetched (snd (downloadAndUploadAsset engine sampleSettings ''https://example.com/assets/a1''
          ''a1'' ''A picture'' quietWorld))
     = [AssetGet ''https://example.com/assets/a1'' (Some ''Bearer secret'')]"
    using downloadAndUploadAsset_never_throws[where w = quietWorld and P = engine
        and assetUrl = "''https://example.com/assets/a1''"
        and idHint = "''a1''" and titleHint = "''A picture''" and st = sampleSettings] u(1)
    by (simp add: st quiet)
  note T0 = downloadAndUploadAsset_never_throws[where w = quietWorld and P = engine
        and assetUrl = "''https://example.com/assets/a1''"
        and idHint = "''a1''" and titleHint = "''A picture''" and st = ?st]
  have un: "url_parse engine (apiEndpoint ?st) = None"
    using u(2) by simp
  have i: "fetched (snd (downloadAndUploadAsset engine ?st
          ''https://example.com/assets/a1'' ''a1'' ''A picture'' quietWorld))
     = [AssetGet ''https://example.com/assets/a1'' None]"
    using T0 un by (simp add: quiet)
  have j: "\<exists>rest. console (snd (downloadAndUploadAsset engine ?st
          ''https://example.com/assets/a1'' ''a1'' ''A picture'' quietWorld))
        = [Info, Warn] @ rest"
    using T0 un by (simp add: quiet)
  have k: "assetFileName engine ''assets/pic.png'' ''bm1'' ''A picture'' ''image/png''
     = ''bm1-A-picture.png''"
    using downloadAndUploadAsset_never_throws[where P = engine and assetUrl = "''assets/pic.png''"
        and idHint = "''bm1''" and titleHint = "''A picture''" and contentType = "''image/png''"] u(3)
    by (simp add: getExtensionFromContentType_samples unsafeFileChars_def isWhiteSpace_def
        isFileTitleChar_def)
  have l: "assetFileName engine ''assets/pic.png'' ''bm1'' ''A picture'' ''constructor''
     = ''bm1-A-picture.function_Object()_{_[native_code]_}''"
    using downloadAndUploadAsset_never_throws[where P = engine and assetUrl = "''assets/pic.png''"
        and idHint = "''bm1''" and titleHint = "''A picture''" and contentType = "''constructor''"] u(3)
    by (simp add: getExtensionFromContentType_samples unsafeFileChars_def isWhiteSpace_def
        isFileTitleChar_def)
  have ep: "url_parse engine (apiEndpoint sampleSettings) = Some ?home"
    using u(1) st(1) by simp
  show ?thesis using a b c d e f g h i j k l un u(3) ep by blast
qed

text \<open>
  The claim as stated fails: a URL that does not parse is not a path to null. Here
  neither the endpoint nor the asset URL parses, and the asset is re-hosted.
\<close>

theorem downloadAndUploadAsset_url_counterexample:
  "url_parse engine (apiEndpoint (sampleSettings\<lparr>apiEndpoint := ''not a url''\<rparr>)) = None
   \<and> url_parse engine ''assets/pic.png'' = None
   \<and> fst (downloadAndUploadAsset engine (sampleSettings\<lparr>apiEndpoint := ''not a url''\<rparr>)
            ''assets/pic.png'' ''bm1'' ''A picture''
            (quietWorld\<lparr>download_replies := [Responds pngResponse],
                         upload_replies :=
                           [Reply 0 []
                              (Some \<lparr>succMap = Some [(''bm1-A-picture.png'',
                                                      ''assets/Karakeep-sync/bm1-A-picture.png'')],
                                     errFiles = None\<rparr>)]\<rparr>))
       = Inr (Some ''assets/Karakeep-sync/bm1-A-picture.png'')"
proof -
  have ct: "contentTypeOf pngResponse = ''image/png''"
    by (simp add: contentTypeOf_def pngResponse_def)
  have ok: "ok pngResponse" "arrayBuffer pngResponse = Inr ''PNG''"
    by (simp_all add: pngResponse_def)
  have u: "url_parse engine ''not a url'' = None" "url_parse engine ''assets/pic.png'' = None"
    by (simp_all add: engine_def)
  show ?thesis
    unfolding downloadAndUploadAsset_result
    by (simp add: ok ct assetFileName_relative uploadOutcome_def u)
qed

section \<open>Update decision\<close>

lemma shouldUpdateDocument_fst:
  "fst (shouldUpdateDocument P pl docId b w) =
     (updateExistingFiles (settings pl) \<and>
      (case fst (getSiYuanBlockAttrs docId w) of
         None \<Rightarrow> True
       | Some attrs \<Rightarrow>
           falsy_time (storedModifiedTime P attrs)
           \<or> time_gt (bookmarkModifiedTime P b) (storedModifiedTime P attrs)))"
  by (cases "getSiYuanBlockAttrs docId w")
     (auto simp add: shouldUpdateDocument_def split: option.splits)

lemma getSiYuanBlockAttrs_effect:
  "fst (getSiYuanBlockAttrs docId w) =
     (case getAttrs_replies w of
        Reply code msg (Some attrs) # rs \<Rightarrow> if code = 0 then Some attrs else None
      | _ \<Rightarrow> None)"
  "requests (snd (getSiYuanBlockAttrs docId w)) = requests w @ [GetBlockAttrs docId]"
  by (simp_all add: getSiYuanBlockAttrs_def post_getAttrs_def nextReply_def
      logWarn_def logError_def split: list.splits reply.splits option.splits)

lemma shouldUpdateDocument_requests:
  "updateExistingFiles (settings pl) \<Longrightarrow>
     requests (snd (shouldUpdateDocument P pl docId b w)) = requests w @ [GetBlockAttrs docId]"
  using getSiYuanBlockAttrs_effect(2)[of docId w]
  by (cases "getSiYuanBlockAttrs docId w")
     (auto simp add: shouldUpdateDocument_def logInfo_def logWarn_def split: option.splits)

lemma shouldUpdateDocument_disabled:
  "\<not> updateExistingFiles (settings pl) \<Longrightarrow> shouldUpdateDocument P pl docId b w = (False, w)"
  by (simp add: shouldUpdateDocument_def)

lemma bookmarkModifiedTime_cases:
  "modifiedAt b = Some m \<Longrightarrow> m \<noteq> [] \<Longrightarrow> bookmarkModifiedTime P b = date_getTime P m"
  "modifiedAt b = None \<or> modifiedAt b = Some [] \<Longrightarrow>
     bookmarkModifiedTime P b = date_getTime P (createdAt b)"
  by (auto simp add: bookmarkModifiedTime_def)

text \<open>
  Claim C1, as amended. \<open>shouldUpdateDocument\<close> answers true exactly when updating is
  enabled and one of these holds: the attributes could not be retrieved; the stored
  modified time is \<open>NaN\<close> or 0; the record's modified time (\<open>modifiedAt\<close>, else
  \<open>createdAt\<close>) is strictly greater than the stored one. The stored modified time is 0
  when the attribute is absent or empty, and is what \<open>Date\<close> makes of the attribute
  otherwise, so that an attribute that is no date, or is the epoch, counts as absent.
  For a stored time that is a valid date other than the epoch, the answer is: enabled
  and record time greater than stored time. When updating is disabled the answer is
  false and nothing else happens: no request, no log line. When it is enabled the
  attributes are requested once. The attributes are retrieved when the kernel answers
  with code 0 and an attribute object; the retrieval has failed when the request
  throws, when the code is not 0 and when the data are null. The record's modified time
  is what \<open>Date\<close> makes of \<open>modifiedAt\<close> when that is present and not empty, and of
  \<open>createdAt\<close> otherwise.
\<close>

theorem shouldUpdateDocument_decision:
  "(fst (shouldUpdateDocument P pl docId b w) =
     (updateExistingFiles (settings pl) \<and>
      (case fst (getSiYuanBlockAttrs docId w) of
         None \<Rightarrow> True
       | Some attrs \<Rightarrow>
           (case storedModifiedTime P attrs of
              NaN \<Rightarrow> True
            | Ms T \<Rightarrow> T = 0 \<or> (case bookmarkModifiedTime P b of NaN \<Rightarrow> False | Ms T' \<Rightarrow> T' > T)))))
   \<and> (\<forall>attrs. \<not> truthy (map_of attrs ATTR_MODIFIED) \<longrightarrow> storedModifiedTime P attrs = Ms 0)
   \<and> (\<forall>attrs v. map_of attrs ATTR_MODIFIED = Some v \<and> v \<noteq> [] \<longrightarrow>
         storedModifiedTime P attrs = date_getTime P v)
   \<and> (\<forall>attrs T T'. fst (getSiYuanBlockAttrs docId w) = Some attrs
         \<and> storedModifiedTime P attrs = Ms T \<and> T \<noteq> 0 \<and> bookmarkModifiedTime P b = Ms T' \<longrightarrow>
         fst (shouldUpdateDocument P pl docId b w) = (updateExistingFiles (settings pl) \<and> T' > T))
   \<and> (\<not> updateExistingFiles (settings pl) \<longrightarrow>
         shouldUpdateDocument P pl docId b w = (False, w))
   \<and> (updateExistingFiles (settings pl) \<longrightarrow>
         requests (snd (shouldUpdateDocument P pl docId b w)) = requests w @ [GetBlockAttrs docId])
   \<and> fst (getSiYuanBlockAttrs docId w) =
         (case getAttrs_replies w of
            Reply code msg (Some attrs) # rs \<Rightarrow> if code = 0 then Some attrs else None
          | _ \<Rightarrow> None)
   \<and> (\<forall>m. modifiedAt b = Some m \<and> m \<noteq> [] \<longrightarrow> bookmarkModifiedTime P b = date_getTime P m)
   \<and> (modifiedAt b = None \<or> modifiedAt b = Some [] \<longrightarrow>
         bookmarkModifiedTime P b = date_getTime P (createdAt b))"
proof -
  have decision:
    "(fst (shouldUpdateDocument P pl docId b w) =
       (updateExistingFiles (settings pl) \<and>
        (case fst (getSiYuanBlockAttrs docId w) of
           None \<Rightarrow> True
         | Some attrs \<Rightarrow>
             (case storedModifiedTime P attrs of
                NaN \<Rightarrow> True
              | Ms T \<Rightarrow> T = 0 \<or> (case bookmarkModifiedTime P b of NaN \<Rightarrow> False | Ms T' \<Rightarrow> T' > T)))))
     \<and> (\<forall>attrs. \<not> truthy (map_of attrs ATTR_MODIFIED) \<longrightarrow> storedModifiedTime P attrs = Ms 0)
     \<and> (\<forall>attrs v. map_of attrs ATTR_MODIFIED = Some v \<and> v \<noteq> [] \<longrightarrow>
           storedModifiedTime P attrs = date_getTime P v)
     \<and> (\<forall>attrs T T'. fst (getSiYuanBlockAttrs docId w) = Some attrs
           \<and> storedModifiedTime P attrs = Ms T \<and> T \<noteq> 0 \<and> bookmarkModifiedTime P b = Ms T' \<longrightarrow>
           fst (shouldUpdateDocument P pl docId b w) = (updateExistingFiles (settings pl) \<and> T' > T))"
    by (auto simp add: shouldUpdateDocument_fst storedModifiedTime_def
        split: option.splits timeval.splits)
  have world:
    "(\<not> updateExistingFiles (settings pl) \<longrightarrow> shouldUpdateDocument P pl docId b w = (False, w))
     \<and> (updateExistingFiles (settings pl) \<longrightarrow>
           requests (snd (shouldUpdateDocument P pl docId b w)) = requests w @ [GetBlockAttrs docId])"
    using shouldUpdateDocument_disabled shouldUpdateDocument_requests by blast
  have times:
    "(\<forall>m. modifiedAt b = Some m \<and> m \<noteq> [] \<longrightarrow> bookmarkModifiedTime P b = date_getTime P m)
     \<and> (modifiedAt b = None \<or> modifiedAt b = Some [] \<longrightarrow>
           bookmarkModifiedTime P b = date_getTime P (createdAt b))"
    using bookmarkModifiedTime_cases by blast
  show ?thesis
    using decision world times getSiYuanBlockAttrs_effect(1)[of docId w] by (intro conjI) blast+
qed

lemma getAttrs_scripted:
  "fst (getSiYuanBlockAttrs docId (quietWorld\<lparr>getAttrs_replies := [Reply 0 [] (Some attrs)]\<rparr>))
     = Some attrs"
  "fst (getSiYuanBlockAttrs docId quietWorld) = None"
  by (simp_all add: getSiYuanBlockAttrs_def post_getAttrs_def nextReply_def quietWorld_def)

lemma sample_times:
  "storedModifiedTime engine marchAttrs = Ms 1709251200000"
  "storedModifiedTime engine epochAttrs = Ms 0"
  "bookmarkModifiedTime engine epochBookmark = Ms 0"
  "bookmarkModifiedTime engine (linkBookmark ''bm1'' ''https://example.com/'') = Ms 1709251200000"
  "bookmarkModifiedTime engine
     ((linkBookmark ''bm1'' ''https://example.com/'')\<lparr>modifiedAt := Some ''2024-03-02T00:00:00Z''\<rparr>)
     = Ms 1709337600000"
  by (simp_all add: storedModifiedTime_def bookmarkModifiedTime_def marchAttrs_def epochAttrs_def
      epochBookmark_def linkBookmark_def engine_def ATTR_MODIFIED_def ATTR_KARAKEEP_ID_def
      ATTR_PREFIX_def)

theorem shouldUpdateDocument_decision_witness:
  "fst (shouldUpdateDocument engine samplePlugin ''doc1''
          ((linkBookmark ''bm1'' ''https://example.com/'')\<lparr>modifiedAt := Some ''2024-03-02T00:00:00Z''\<rparr>)
          (quietWorld\<lparr>getAttrs_replies := [Reply 0 [] (Some marchAttrs)]\<rparr>)) = True
   \<and> fst (shouldUpdateDocument engine samplePlugin ''doc1''
          (linkBookmark ''bm1'' ''https://example.com/'')
          (quietWorld\<lparr>getAttrs_replies := [Reply 0 [] (Some marchAttrs)]\<rparr>)) = False
   \<and> fst (shouldUpdateDocument engine samplePlugin ''doc1''
          (linkBookmark ''bm1'' ''https://example.com/'') quietWorld) = True
   \<and> storedModifiedTime engine [] = Ms 0
   \<and> storedModifiedTime engine marchAttrs = date_getTime engine ''2024-03-01T00:00:00Z''
   \<and> updateExistingFiles (settings samplePlugin)
   \<and> requests (snd (shouldUpdateDocument engine samplePlugin ''doc1''
          (linkBookmark ''bm1'' ''https://example.com/'')
          (quietWorld\<lparr>getAttrs_replies := [Reply 0 [] (Some marchAttrs)]\<rparr>)))
       = [GetBlockAttrs ''doc1'']
   \<and> \<not> updateExistingFiles
          (settings (samplePlugin\<lparr>settings := sampleSettings\<lparr>updateExistingFiles := False\<rparr>\<rparr>))
   \<and> shouldUpdateDocument engine
          (samplePlugin\<lparr>settings := sampleSettings\<lparr>updateExistingFiles := False\<rparr>\<rparr>) ''doc1''
          ((linkBookmark ''bm1'' ''https://example.com/'')\<lparr>modifiedAt := Some ''2024-03-02T00:00:00Z''\<rparr>)
          (quietWorld\<lparr>getAttrs_replies := [Reply 0 [] (Some marchAttrs)]\<rparr>)
       = (False, quietWorld\<lparr>getAttrs_replies := [Reply 0 [] (Some marchAttrs)]\<rparr>)
   \<and> bookmarkModifiedTime engine
          ((linkBookmark ''bm1'' ''https://example.com/'')\<lparr>modifiedAt := Some ''2024-03-02T00:00:00Z''\<rparr>)
       = date_getTime engine ''2024-03-02T00:00:00Z''
   \<and> bookmarkModifiedTime engine (linkBookmark ''bm1'' ''https://example.com/'')
       = date_getTime engine ''2024-03-01T00:00:00Z''"
proof -
  let ?b1 = "linkBookmark ''bm1'' ''https://example.com/''"
  let ?b2 = "?b1\<lparr>modifiedAt := Some ''2024-03-02T00:00:00Z''\<rparr>"
  let ?w = "quietWorld\<lparr>getAttrs_replies := [Reply 0 [] (Some marchAttrs)]\<rparr>"
  let ?off = "samplePlugin\<lparr>settings := sampleSettings\<lparr>updateExistingFiles := False\<rparr>\<rparr>"
  have en: "updateExistingFiles (settings samplePlugin)"
    by (simp add: samplePlugin_def sampleSettings_def)
  have dis: "\<not> updateExistingFiles (settings ?off)"
    by simp
  note A = shouldUpdateDocument_decision[where P = engine and pl = samplePlugin
        and docId = "''doc1''" and b = ?b2 and w = ?w]
  note B = shouldUpdateDocument_decision[where P = engine and pl = samplePlugin
        and docId = "''doc1''" and b = ?b1 and w = ?w]
  note C = shouldUpdateDocument_decision[where P = engine and pl = samplePlugin
        and docId = "''doc1''" and b = ?b1 and w = quietWorld]
  note D = shouldUpdateDocument_decision[where P = engine and pl = ?off
        and docId = "''doc1''" and b = ?b2 and w = ?w]
  have a: "fst (shouldUpdateDocument engine samplePlugin ''doc1'' ?b2 ?w) = True"
    using A getAttrs_scripted(1)[of "''doc1''" marchAttrs] sample_times(1,5) en
    by simp
  have b: "fst (shouldUpdateDocument engine samplePlugin ''doc1'' ?b1 ?w) = False"
    using B getAttrs_scripted(1)[of "''doc1''" marchAttrs] sample_times(1,4) en
    by simp
  have c: "fst (shouldUpdateDocument engine samplePlugin ''doc1'' ?b1 quietWorld) = True"
    using C getAttrs_scripted(2)[of "''doc1''"] en
    by simp
  have d: "storedModifiedTime engine [] = Ms 0"
    using shouldUpdateDocument_decision[where P = engine] by simp
  have m: "map_of marchAttrs ATTR_MODIFIED = Some ''2024-03-01T00:00:00Z''"
    by (simp add: marchAttrs_def ATTR_MODIFIED_def ATTR_KARAKEEP_ID_def ATTR_PREFIX_def)
  have e: "storedModifiedTime engine marchAttrs = date_getTime engine ''2024-03-01T00:00:00Z''"
    using shouldUpdateDocument_decision[where P = engine] m by blast
  have f: "requests (snd (shouldUpdateDocument engine samplePlugin ''doc1'' ?b1 ?w))
       = [GetBlockAttrs ''doc1'']"
    using B en by (simp add: quietWorld_def)
  have g: "shouldUpdateDocument engine ?off ''doc1'' ?b2 ?w = (False, ?w)"
    using D dis by blast
  have h: "bookmarkModifiedTime engine ?b2 = date_getTime engine ''2024-03-02T00:00:00Z''"
    using A by simp
  have i: "bookmarkModifiedTime engine ?b1 = date_getTime engine ''2024-03-01T00:00:00Z''"
    using B by (simp add: linkBookmark_def)
  show ?thesis using a b c d e f g h i en dis by blast
qed

text \<open>
  The claim as stated fails: with a stored modified attribute that is present (the
  epoch) and a record that is not newer, the update fires.
\<close>

theorem shouldUpdateDocument_epoch_counterexample:
  "updateExistingFiles (settings samplePlugin)
   \<and> fst (getSiYuanBlockAttrs ''doc1''
          (quietWorld\<lparr>getAttrs_replies := [Reply 0 [] (Some epochAttrs)]\<rparr>)) = Some epochAttrs
   \<and> map_of epochAttrs ATTR_MODIFIED = Some ''1970-01-01T00:00:00.000Z''
   \<and> date_getTime engine ''1970-01-01T00:00:00.000Z'' = Ms 0
   \<and> bookmarkModifiedTime engine epochBookmark = Ms 0
   \<and> \<not> time_gt (Ms 0) (Ms 0)
   \<and> fst (shouldUpdateDocument engine samplePlugin ''doc1'' epochBookmark
          (quietWorld\<lparr>getAttrs_replies := [Reply 0 [] (Some epochAttrs)]\<rparr>)) = True"
proof -
  have en: "updateExistingFiles (settings samplePlugin)"
    by (simp add: samplePlugin_def sampleSettings_def)
  have m: "map_of epochAttrs ATTR_MODIFIED = Some ''1970-01-01T00:00:00.000Z''"
    by (simp add: epochAttrs_def ATTR_MODIFIED_def ATTR_KARAKEEP_ID_def ATTR_PREFIX_def)
  have t: "date_getTime engine ''1970-01-01T00:00:00.000Z'' = Ms 0"
    by (simp add: engine_def)
  have r: "fst (shouldUpdateDocument engine samplePlugin ''doc1'' epochBookmark
          (quietWorld\<lparr>getAttrs_replies := [Reply 0 [] (Some epochAttrs)]\<rparr>)) = True"
    by (simp add: shouldUpdateDocument_fst en getAttrs_scripted sample_times)
  show ?thesis using en m t r getAttrs_scripted(1)[of "''doc1''" epochAttrs] sample_times(3)
    by simp
qed

section \<open>Per-record filter\<close>

lemma createNew_status:
  "status (fst (createNewSiYuanDocument P fmt b nb ttl path w)) = Created
   \<or> status (fst (createNewSiYuanDocument P fmt b nb ttl path w)) = Errored"
  by (simp add: createNewSiYuanDocument_def split: sum.splits prod.splits option.splits)

lemma update_status:
  "status (fst (updateSiYuanDocument P fmt docId b nb ttl path w)) = Updated
   \<or> status (fst (updateSiYuanDocument P fmt docId b nb ttl path w)) = Errored"
proof (cases "removeSiYuanDocById docId w")
  case (Pair deleted w1)
  show ?thesis
  proof (cases deleted)
    case False
    then show ?thesis using Pair by (simp add: updateSiYuanDocument_def)
  next
    case True
    obtain r w2 where c: "createNewSiYuanDocument P fmt b nb ttl path (logInfo w1) = (r, w2)"
      by (cases "createNewSiYuanDocument P fmt b nb ttl path (logInfo w1)")
    then show ?thesis
      using Pair True createNew_status[of P fmt b nb ttl path "logInfo w1"]
      by (auto simp add: updateSiYuanDocument_def)
  qed
qed

lemma reconcile_status:
  "status (fst (reconcile P pl fmt b nb ttl path w)) \<noteq> Skipped_filtered"
proof (cases "findExistingDocIdByKarakeepId nb (b_id b) w")
  case (Pair found w1)
  show ?thesis
  proof (cases found)
    case (Inl e)
    then show ?thesis using Pair by (simp add: reconcile_def)
  next
    case (Inr existing)
    show ?thesis
    proof (cases "truthy existing")
      case False
      then show ?thesis
        using Pair Inr createNew_status[of P fmt b nb ttl path "logInfo w1"]
        by (auto simp add: reconcile_def)
    next
      case True
      obtain su w2 where s: "shouldUpdateDocument P pl (the existing) b w1 = (su, w2)"
        by (cases "shouldUpdateDocument P pl (the existing) b w1")
      show ?thesis
        using Pair Inr True s update_status[of P fmt "the existing" b nb ttl path "logInfo w2"]
        by (cases su) (auto simp add: reconcile_def)
    qed
  qed
qed

lemma processBookmark_filtered:
  assumes "fst (processBookmark P pl fmt b nb w) = Inr r" and "status r = Skipped_filtered"
  shows "applyFilters P (settings pl) b = Some r"
proof (cases "applyFilters P (settings pl) b")
  case (Some f)
  then show ?thesis using assms by (simp add: processBookmark_def)
next
  case None
  show ?thesis
  proof (cases "getBookmarkTitle P b")
    case (Inl e)
    then show ?thesis using None assms by (simp add: processBookmark_def)
  next
    case (Inr ttl)
    show ?thesis
    proof (cases "sanitizeSiYuanPath P ttl (createdAt b)")
      case (Inl e)
      then show ?thesis using None Inr assms by (simp add: processBookmark_def)
    next
      case (Inr p)
      then show ?thesis
        using None \<open>getBookmarkTitle P b = Inr ttl\<close> assms
          reconcile_status[of P pl fmt b nb ttl "CHR ''/'' # dropWhile (\<lambda>c. c = CHR ''/'') p" w]
        by (auto simp add: processBookmark_def split: prod.splits)
    qed
  qed
qed

lemma applyFilters_favourited:
  "favourited b \<Longrightarrow>
     applyFilters P st b =
       (if excludeArchived st \<and> archived b
        then Some \<lparr>status = Skipped_filtered, message = Some ''Archived''\<rparr> else None)"
  by (simp add: applyFilters_def)

lemma shouldUpdate_excludedTags:
  "shouldUpdateDocument P (pl\<lparr>settings := (settings pl)\<lparr>excludedTags := xs\<rparr>\<rparr>) docId b w
     = shouldUpdateDocument P pl docId b w"
  by (simp add: shouldUpdateDocument_def)

lemma reconcile_excludedTags:
  "reconcile P (pl\<lparr>settings := (settings pl)\<lparr>excludedTags := xs\<rparr>\<rparr>) fmt b nb ttl path w
     = reconcile P pl fmt b nb ttl path w"
  by (simp add: reconcile_def shouldUpdate_excludedTags cong: prod.case_cong sum.case_cong if_cong)

text \<open>
  Claim C2. A favourited record is never \<open>skipped_filtered\<close> for an excluded tag,
  however many of its tags are excluded: the only filter that can drop it is the
  archived one, and \<open>processBookmark\<close> does for it what it does under any other list of
  excluded tags.
\<close>

theorem favourited_bypasses_excludedTags:
  assumes "favourited b"
  shows "fst (processBookmark P pl fmt b nb w)
           \<noteq> Inr \<lparr>status = Skipped_filtered, message = Some ''Excluded tag''\<rparr>
       \<and> (\<forall>r. fst (processBookmark P pl fmt b nb w) = Inr r \<and> status r = Skipped_filtered \<longrightarrow>
             excludeArchived (settings pl) \<and> archived b \<and> message r = Some ''Archived'')
       \<and> (\<forall>xs. processBookmark P (pl\<lparr>settings := (settings pl)\<lparr>excludedTags := xs\<rparr>\<rparr>) fmt b nb w
               = processBookmark P pl fmt b nb w)"
proof (intro conjI allI impI)
  show "fst (processBookmark P pl fmt b nb w)
           \<noteq> Inr \<lparr>status = Skipped_filtered, message = Some ''Excluded tag''\<rparr>"
  proof
    assume a: "fst (processBookmark P pl fmt b nb w)
           = Inr \<lparr>status = Skipped_filtered, message = Some ''Excluded tag''\<rparr>"
    have "applyFilters P (settings pl) b
            = Some \<lparr>status = Skipped_filtered, message = Some ''Excluded tag''\<rparr>"
      by (rule processBookmark_filtered[OF a]) simp
    then show False using assms by (simp add: applyFilters_favourited split: if_splits)
  qed
next
  fix r assume a: "fst (processBookmark P pl fmt b nb w) = Inr r \<and> status r = Skipped_filtered"
  then have f: "applyFilters P (settings pl) b = Some r"
    using processBookmark_filtered by blast
  then show "excludeArchived (settings pl)" "archived b" "message r = Some ''Archived''"
    using assms by (auto simp add: applyFilters_favourited split: if_splits)
next
  fix xs
  show "processBookmark P (pl\<lparr>settings := (settings pl)\<lparr>excludedTags := xs\<rparr>\<rparr>) fmt b nb w
               = processBookmark P pl fmt b nb w"
    using assms
    by (simp add: processBookmark_def applyFilters_favourited reconcile_excludedTags
        cong: sum.case_cong)
qed

lemma tagged_excluded: "hasExcludedTag engine sampleSettings (taggedBookmark\<lparr>favourited := True\<rparr>)"
  by code_simp

lemma tagged_created:
  "fst (processBookmark engine samplePlugin plainFormatter (taggedBookmark\<lparr>favourited := True\<rparr>)
          ''notebook1'' createWorld) = Inr \<lparr>status = Created, message = None\<rparr>"
  by code_simp

lemma tagged_dropped:
  "fst (processBookmark engine samplePlugin plainFormatter taggedBookmark
          ''notebook1'' createWorld) = Inr \<lparr>status = Skipped_filtered, message = Some ''Excluded tag''\<rparr>"
  by code_simp

theorem favourited_bypasses_excludedTags_witness:
  "favourited (taggedBookmark\<lparr>favourited := True\<rparr>)
   \<and> hasExcludedTag engine (settings samplePlugin) (taggedBookmark\<lparr>favourited := True\<rparr>)
   \<and> fst (processBookmark engine samplePlugin plainFormatter (taggedBookmark\<lparr>favourited := True\<rparr>)
          ''notebook1'' createWorld)
       \<noteq> Inr \<lparr>status = Skipped_filtered, message = Some ''Excluded tag''\<rparr>
   \<and> fst (processBookmark engine samplePlugin plainFormatter (taggedBookmark\<lparr>favourited := True\<rparr>)
          ''notebook1'' createWorld) = Inr \<lparr>status = Created, message = None\<rparr>
   \<and> fst (processBookmark engine samplePlugin plainFormatter taggedBookmark
          ''notebook1'' createWorld)
       = Inr \<lparr>status = Skipped_filtered, message = Some ''Excluded tag''\<rparr>"
proof -
  have f: "favourited (taggedBookmark\<lparr>favourited := True\<rparr>)" by simp
  have h: "hasExcludedTag engine (settings samplePlugin) (taggedBookmark\<lparr>favourited := True\<rparr>)"
    using tagged_excluded by (simp add: samplePlugin_def)
  have n: "fst (processBookmark engine samplePlugin plainFormatter
                  (taggedBookmark\<lparr>favourited := True\<rparr>) ''notebook1'' createWorld)
       \<noteq> Inr \<lparr>status = Skipped_filtered, message = Some ''Excluded tag''\<rparr>"
    using favourited_bypasses_excludedTags[OF f, of engine samplePlugin plainFormatter
        "''notebook1''" createWorld]
    by blast
  show ?thesis using f h n tagged_created tagged_dropped by blast
qed

text \<open>
  Claim C3. With \<open>excludeArchived\<close> configured, an archived record is always
  \<open>skipped_filtered\<close>, favourited or not: the archived test is the first one. Nothing
  is asked of the store, and the result is never \<open>created\<close> or \<open>updated\<close>.
\<close>

theorem archived_always_filtered:
  assumes "archived b" and "excludeArchived (settings pl)"
  shows "processBookmark P pl fmt b nb w
           = (Inr \<lparr>status = Skipped_filtered, message = Some ''Archived''\<rparr>, w)
       \<and> (\<forall>r. fst (processBookmark P pl fmt b nb w) = Inr r \<longrightarrow>
             status r = Skipped_filtered \<and> status r \<noteq> Created \<and> status r \<noteq> Updated)"
  using assms by (simp add: processBookmark_def applyFilters_def)

theorem archived_always_filtered_witness:
  "archived (taggedBookmark\<lparr>favourited := True, archived := True\<rparr>)
   \<and> favourited (taggedBookmark\<lparr>favourited := True, archived := True\<rparr>)
   \<and> excludeArchived (settings samplePlugin)
   \<and> processBookmark engine samplePlugin plainFormatter
        (taggedBookmark\<lparr>favourited := True, archived := True\<rparr>) ''notebook1'' createWorld
       = (Inr \<lparr>status = Skipped_filtered, message = Some ''Archived''\<rparr>, createWorld)"
proof -
  have a: "archived (taggedBookmark\<lparr>favourited := True, archived := True\<rparr>)" by simp
  have f: "favourited (taggedBookmark\<lparr>favourited := True, archived := True\<rparr>)" by simp
  have e: "excludeArchived (settings samplePlugin)"
    by (simp add: samplePlugin_def sampleSettings_def)
  show ?thesis
    using a f e archived_always_filtered[OF a e, of engine plainFormatter "''notebook1''" createWorld]
    by blast
qed

section \<open>Delete and recreate\<close>

lemma log_frame [simp]:
  "tree (logInfo w) = tree w" "tree (logWarn w) = tree w" "tree (logError w) = tree w"
  "requests (logInfo w) = requests w" "requests (logWarn w) = requests w"
  "requests (logError w) = requests w"
  "create_replies (logInfo w) = create_replies w" "create_replies (logError w) = create_replies w"
  "remove_replies (logInfo w) = remove_replies w" "remove_replies (logError w) = remove_replies w"
  by (simp_all add: logInfo_def logWarn_def logError_def)










section \<open>The run\<close>

lemma countResult_vars:
  "tally (fst (countResult r v w)) = Suc (tally v)"
  "processedBookmarkIds (fst (countResult r v w)) = processedBookmarkIds v"
  "criticalErrorOccurred (fst (countResult r v w)) = criticalErrorOccurred v"
  by (cases "status r"; simp add: countResult_def tally_def)+

lemma counted_step:
  assumes "counted v" and "i \<notin> processedBookmarkIds v"
  shows "counted (fst (countResult r (v\<lparr>processedBookmarkIds := insert i (processedBookmarkIds v)\<rparr>) w))"
proof -
  have "tally (v\<lparr>processedBookmarkIds := insert i (processedBookmarkIds v)\<rparr>) = tally v"
    by (simp add: tally_def)
  then show ?thesis using assms by (simp add: counted_def countResult_vars)
qed

lemma processBookmarks_inv:
  assumes "processBookmarks P pl fmt nb bs v w = (None, v', w')"
    and "counted v" and "\<not> criticalErrorOccurred v"
  shows "counted v' \<and> \<not> criticalErrorOccurred v'
         \<and> processedBookmarkIds v' = processedBookmarkIds v \<union> b_id ` set bs"
  using assms
proof (induction bs arbitrary: v w)
  case Nil
  then show ?case by simp
next
  case (Cons b bs)
  show ?case
  proof (cases "b_id b \<in> processedBookmarkIds v")
    case True
    then have "processBookmarks P pl fmt nb bs v (logWarn w) = (None, v', w')"
      using Cons.prems(1) by simp
    then have "counted v' \<and> \<not> criticalErrorOccurred v'
         \<and> processedBookmarkIds v' = processedBookmarkIds v \<union> b_id ` set bs"
      using Cons.IH Cons.prems(2,3) by blast
    then show ?thesis using True by auto
  next
    case False
    let ?v1 = "v\<lparr>processedBookmarkIds := insert (b_id b) (processedBookmarkIds v)\<rparr>"
    obtain res w1 where pb: "processBookmark P pl fmt b nb w = (res, w1)"
      by (cases "processBookmark P pl fmt b nb w")
    show ?thesis
    proof (cases res)
      case (Inl e)
      then show ?thesis using Cons.prems(1) False pb by (simp add: Let_def)
    next
      case (Inr r)
      obtain v2 w2 where cr: "countResult r ?v1 w1 = (v2, w2)"
        by (cases "countResult r ?v1 w1")
      have v2: "counted v2" "\<not> criticalErrorOccurred v2"
        "processedBookmarkIds v2 = insert (b_id b) (processedBookmarkIds v)"
        using counted_step[OF Cons.prems(2) False, of r w1] cr countResult_vars(2,3)[of r ?v1 w1]
          Cons.prems(3)
        by simp_all
      have "processBookmarks P pl fmt nb bs v2 w2 = (None, v', w')"
        using Cons.prems(1) False pb Inr cr v2(2) by (simp add: Let_def)
      then have "counted v' \<and> \<not> criticalErrorOccurred v'
         \<and> processedBookmarkIds v' = processedBookmarkIds v2 \<union> b_id ` set bs"
        using Cons.IH v2(1,2) by blast
      then show ?thesis using v2(3) by auto
    qed
  qed
qed

lemma syncLoop_inv:
  assumes "syncLoop P pl fmt nb replies cursor v w = (None, v', w')"
    and "counted v" and "\<not> criticalErrorOccurred v"
  shows "counted v' \<and> \<not> criticalErrorOccurred v'
         \<and> processedBookmarkIds v' = processedBookmarkIds v \<union> b_id ` set (fetchedBookmarks replies)"
  using assms
proof (induction replies arbitrary: cursor v w)
  case Nil
  then show ?case
    by (simp add: fetchKarakeepBookmarks_def Let_def)
next
  case (Cons r rs)
  obtain res w1 where f: "fetchKarakeepBookmarks (settings pl) cursor r (logInfo w) = (res, w1)"
    by (cases "fetchKarakeepBookmarks (settings pl) cursor r (logInfo w)")
  show ?case
  proof (cases res)
    case (Inl e)
    then show ?thesis using Cons.prems(1) f by simp
  next
    case (Inr resp)
    then have r: "r = Page resp"
      using f by (cases r) (simp_all add: fetchKarakeepBookmarks_def Let_def)
    obtain eo v1 w2 where pb:
      "processBookmarks P pl fmt nb (bookmarks resp) v (logInfo w1) = (eo, v1, w2)"
      by (cases "processBookmarks P pl fmt nb (bookmarks resp) v (logInfo w1)")
    show ?thesis
    proof (cases eo)
      case (Some e)
      then show ?thesis using Cons.prems(1) f Inr pb by simp
    next
      case None
      have v1: "counted v1" "\<not> criticalErrorOccurred v1"
        "processedBookmarkIds v1 = processedBookmarkIds v \<union> b_id ` set (bookmarks resp)"
        using processBookmarks_inv[OF pb[unfolded None] Cons.prems(2,3)] by simp_all
      show ?thesis
      proof (cases "truthy (nextCursor resp)")
        case True
        then have "syncLoop P pl fmt nb rs (nextCursor resp) v1 (logInfo w2) = (None, v', w')"
          using Cons.prems(1) f Inr pb None v1(2) by simp
        then have "counted v' \<and> \<not> criticalErrorOccurred v'
           \<and> processedBookmarkIds v' = processedBookmarkIds v1 \<union> b_id ` set (fetchedBookmarks rs)"
          using Cons.IH v1(1,2) by blast
        then show ?thesis using v1(3) r True by auto
      next
        case False
        then have "v' = v1"
          using Cons.prems(1) f Inr pb None v1(2) by simp
        then show ?thesis using v1 r False by simp
      qed
    qed
  qed
qed

lemma counted_initial: "counted initialVars" "\<not> criticalErrorOccurred initialVars"
  "processedBookmarkIds initialVars = {}"
  by (simp_all add: counted_def initialVars_def tally_def)

lemma critical_flag:
  "critical pl e v w = (v', m, w') \<Longrightarrow> criticalErrorOccurred v' \<and> 0 < errorCount v'"
  by (auto simp add: critical_def)

lemma now_log [simp]:
  "now (logInfo w) = now w" "now (logWarn w) = now w" "now (logError w) = now w"
  by (simp_all add: logInfo_def logWarn_def logError_def)

lemma syncCycle_complete:
  assumes "syncCycle P pl fmt replies w = (v', caught, pl', w')"
    and "\<not> criticalErrorOccurred v'"
  shows "processedBookmarkIds v' = b_id ` set (fetchedBookmarks replies)
         \<and> tally v' = card (b_id ` set (fetchedBookmarks replies))
         \<and> lastSyncTimestamp (settings pl') = now w' \<and> caught = []"
proof (cases "apiKey (settings pl) = [] \<or> \<not> truthy (syncNotebookId (settings pl))")
  case True
  then have "criticalErrorOccurred v'"
    using assms(1)
    by (auto simp add: syncCycle_def Let_def split: prod.splits if_splits dest: critical_flag)
  then show ?thesis using assms(2) by simp
next
  case False
  let ?nb = "the (syncNotebookId (settings pl))"
  obtain eo v1 w1 where l:
    "syncLoop P pl fmt ?nb replies None initialVars (logInfo (logInfo w)) = (eo, v1, w1)"
    by (cases "syncLoop P pl fmt ?nb replies None initialVars (logInfo (logInfo w))")
  show ?thesis
  proof (cases eo)
    case (Some e)
    then have "criticalErrorOccurred v'"
      using assms(1) False l
      by (auto simp add: syncCycle_def Let_def split: prod.splits dest: critical_flag)
    then show ?thesis using assms(2) by simp
  next
    case None
    have inv: "counted v1" "\<not> criticalErrorOccurred v1"
      "processedBookmarkIds v1 = b_id ` set (fetchedBookmarks replies)"
      using syncLoop_inv[OF l[unfolded None] counted_initial(1,2)] counted_initial(3)
      by simp_all
    have r: "v' = v1" "caught = []"
      "pl' = pl\<lparr>settings := (settings pl)\<lparr>lastSyncTimestamp := now (logInfo w1)\<rparr>\<rparr>"
      "w' = logInfo (logInfo (logInfo w1))"
      using assms(1) False l None inv(2) by (simp_all add: syncCycle_def Let_def)
    show ?thesis using inv r by (simp add: counted_def)
  qed
qed

text \<open>
  Claim C6. A record whose id is already in the seen-id set of the run is skipped: the
  loop goes on with the same counters and the same set, nothing is asked of the
  store, only a warning is logged. So in a run that ends without critical error the
  set holds the ids of all records of all fetched pages and the counters add up to the
  number of distinct ids, one outcome for each.
\<close>

theorem duplicate_ids_skipped:
  "(b_id b \<in> processedBookmarkIds v \<longrightarrow>
      processBookmarks P pl fmt nb (b # bs) v w = processBookmarks P pl fmt nb bs v (logWarn w)
      \<and> processBookmarks P pl fmt nb [b] v w = (None, v, logWarn w)
      \<and> requests (logWarn w) = requests w \<and> tree (logWarn w) = tree w)
   \<and> (syncCycle P pl fmt replies w = (v', caught, pl', w') \<and> \<not> criticalErrorOccurred v' \<longrightarrow>
        processedBookmarkIds v' = b_id ` set (fetchedBookmarks replies)
        \<and> tally v' = card (b_id ` set (fetchedBookmarks replies)))"
  using syncCycle_complete[of P pl fmt replies w v' caught pl' w']
  by (simp add: logWarn_def)

lemma overlapping_run:
  "createdCount (fst (syncCycle engine samplePlugin plainFormatter overlappingPages createWorld)) = 1"
  "tally (fst (syncCycle engine samplePlugin plainFormatter overlappingPages createWorld)) = 1"
  "\<not> criticalErrorOccurred (fst (syncCycle engine samplePlugin plainFormatter overlappingPages createWorld))"
  "length (requests (snd (snd (snd (syncCycle engine samplePlugin plainFormatter overlappingPages
       createWorld))))) = 3"
  "length (fetchedBookmarks overlappingPages) = 2"
  by code_simp+

theorem duplicate_ids_skipped_witness:
  "b_id favouriteBookmark \<in> processedBookmarkIds (initialVars\<lparr>processedBookmarkIds := {''bm2''}\<rparr>)
   \<and> processBookmarks engine samplePlugin plainFormatter ''notebook1'' [favouriteBookmark]
        (initialVars\<lparr>processedBookmarkIds := {''bm2''}\<rparr>) createWorld
       = (None, initialVars\<lparr>processedBookmarkIds := {''bm2''}\<rparr>, logWarn createWorld)
   \<and> \<not> criticalErrorOccurred
         (fst (syncCycle engine samplePlugin plainFormatter overlappingPages createWorld))
   \<and> length (fetchedBookmarks overlappingPages) = 2
   \<and> tally (fst (syncCycle engine samplePlugin plainFormatter overlappingPages createWorld))
       = card (b_id ` set (fetchedBookmarks overlappingPages))
   \<and> tally (fst (syncCycle engine samplePlugin plainFormatter overlappingPages createWorld)) = 1
   \<and> createdCount (fst (syncCycle engine samplePlugin plainFormatter overlappingPages createWorld)) = 1"
proof -
  let ?v = "initialVars\<lparr>processedBookmarkIds := {''bm2''}\<rparr>"
  let ?run = "syncCycle engine samplePlugin plainFormatter overlappingPages createWorld"
  have i: "b_id favouriteBookmark \<in> processedBookmarkIds ?v"
    by (simp add: favouriteBookmark_def taggedBookmark_def linkBookmark_def)
  have r: "?run = (fst ?run, fst (snd ?run), fst (snd (snd ?run)), snd (snd (snd ?run)))"
    by simp
  note T = duplicate_ids_skipped[where b = favouriteBookmark and v = ?v and P = engine
      and pl = samplePlugin and fmt = plainFormatter and nb = "''notebook1''" and bs = "[]"
      and w = createWorld and replies = overlappingPages and v' = "fst ?run"
      and caught = "fst (snd ?run)" and pl' = "fst (snd (snd ?run))" and w' = "snd (snd (snd ?run))"]
  have a: "processBookmarks engine samplePlugin plainFormatter ''notebook1'' [favouriteBookmark]
        ?v createWorld = (None, ?v, logWarn createWorld)"
    using T i by blast
  have b: "tally (fst ?run) = card (b_id ` set (fetchedBookmarks overlappingPages))"
    using T r overlapping_run(3) by blast
  show ?thesis using i a b overlapping_run by blast
qed

text \<open>
  Claim C10. The summary's \<open>success\<close> is true exactly when no critical error occurred
  and the error count is zero (a critical error always counts as an error). A run
  without critical error in which some record yields \<open>error\<close> returns
  \<open>success = false\<close>, has processed every record of every fetched page, and has set the
  last-sync timestamp to the current time.
\<close>

theorem runSyncCycle_success:
  "syncCycle P pl fmt replies w = (v, caught, pl', w') \<longrightarrow>
     success (fst (runSyncCycle P pl fmt replies w))
       = (\<not> criticalErrorOccurred v \<and> errorCount v = 0)
     \<and> (criticalErrorOccurred v \<longrightarrow> 0 < errorCount v)
     \<and> (\<not> criticalErrorOccurred v \<and> 0 < errorCount v \<longrightarrow>
          \<not> success (fst (runSyncCycle P pl fmt replies w))
          \<and> fst (snd (runSyncCycle P pl fmt replies w)) = pl'
          \<and> lastSyncTimestamp (settings pl') = now w'
          \<and> processedBookmarkIds v = b_id ` set (fetchedBookmarks replies)
          \<and> tally v = card (b_id ` set (fetchedBookmarks replies)))"
proof (intro impI conjI)
  assume s: "syncCycle P pl fmt replies w = (v, caught, pl', w')"
  show "success (fst (runSyncCycle P pl fmt replies w))
       = (\<not> criticalErrorOccurred v \<and> errorCount v = 0)"
    using s by (simp add: runSyncCycle_def)
  {
    assume c: "criticalErrorOccurred v"
    show "0 < errorCount v"
    proof (cases "apiKey (settings pl) = [] \<or> \<not> truthy (syncNotebookId (settings pl))")
      case True
      then show ?thesis using s
        by (auto simp add: syncCycle_def Let_def split: prod.splits if_splits dest: critical_flag)
    next
      case False
      let ?nb = "the (syncNotebookId (settings pl))"
      obtain eo v1 w1 where l:
        "syncLoop P pl fmt ?nb replies None initialVars (logInfo (logInfo w)) = (eo, v1, w1)"
        by (cases "syncLoop P pl fmt ?nb replies None initialVars (logInfo (logInfo w))")
      show ?thesis
      proof (cases eo)
        case (Some e)
        then show ?thesis using s False l
          by (auto simp add: syncCycle_def Let_def split: prod.splits dest: critical_flag)
      next
        case None
        have "\<not> criticalErrorOccurred v1"
          using syncLoop_inv[OF l[unfolded None] counted_initial(1,2)] by simp
        then have "v = v1" using s False l None by (simp add: syncCycle_def Let_def)
        then show ?thesis using c \<open>\<not> criticalErrorOccurred v1\<close> by simp
      qed
    qed
  }
  {
    assume a: "\<not> criticalErrorOccurred v \<and> 0 < errorCount v"
    show "\<not> success (fst (runSyncCycle P pl fmt replies w))"
      using s a by (simp add: runSyncCycle_def)
    show "fst (snd (runSyncCycle P pl fmt replies w)) = pl'"
      using s by (simp add: runSyncCycle_def)
    show "lastSyncTimestamp (settings pl') = now w'"
      "processedBookmarkIds v = b_id ` set (fetchedBookmarks replies)"
      "tally v = card (b_id ` set (fetchedBookmarks replies))"
      using syncCycle_complete[OF s] a by simp_all
  }
qed

lemma failing_run:
  "errorCount (fst (syncCycle engine samplePlugin plainFormatter twoRecords failingLookupWorld)) = 1"
  "createdCount (fst (syncCycle engine samplePlugin plainFormatter twoRecords failingLookupWorld)) = 1"
  "\<not> criticalErrorOccurred
      (fst (syncCycle engine samplePlugin plainFormatter twoRecords failingLookupWorld))"
  "lastSyncTimestamp (settings samplePlugin) = 0"
  "now failingLookupWorld = 1709300000000"
  "length (fetchedBookmarks twoRecords) = 2"
  by code_simp+

lemma failing_run_timestamp:
  "lastSyncTimestamp (settings (fst (snd (runSyncCycle engine samplePlugin plainFormatter twoRecords
      failingLookupWorld)))) = 1709300000000"
  by code_simp

theorem runSyncCycle_success_witness:
  "\<not> criticalErrorOccurred
      (fst (syncCycle engine samplePlugin plainFormatter twoRecords failingLookupWorld))
   \<and> errorCount (fst (syncCycle engine samplePlugin plainFormatter twoRecords failingLookupWorld)) = 1
   \<and> createdCount (fst (syncCycle engine samplePlugin plainFormatter twoRecords failingLookupWorld)) = 1
   \<and> \<not> success (fst (runSyncCycle engine samplePlugin plainFormatter twoRecords failingLookupWorld))
   \<and> lastSyncTimestamp (settings samplePlugin) = 0
   \<and> lastSyncTimestamp (settings (fst (snd (runSyncCycle engine samplePlugin plainFormatter
        twoRecords failingLookupWorld)))) = 1709300000000
   \<and> length (fetchedBookmarks twoRecords) = 2
   \<and> tally (fst (syncCycle engine samplePlugin plainFormatter twoRecords failingLookupWorld))
       = card (b_id ` set (fetchedBookmarks twoRecords))"
proof -
  let ?run = "syncCycle engine samplePlugin plainFormatter twoRecords failingLookupWorld"
  have r: "?run = (fst ?run, fst (snd ?run), fst (snd (snd ?run)), snd (snd (snd ?run)))"
    by simp
  note T = runSyncCycle_success[where P = engine and pl = samplePlugin and fmt = plainFormatter
      and replies = twoRecords and w = failingLookupWorld and v = "fst ?run"
      and caught = "fst (snd ?run)" and pl' = "fst (snd (snd ?run))" and w' = "snd (snd (snd ?run))"]
  have e: "0 < errorCount (fst ?run)" using failing_run(1) by simp
  have a: "\<not> success (fst (runSyncCycle engine samplePlugin plainFormatter twoRecords
             failingLookupWorld))"
    using T r failing_run(3) e by blast
  have b: "tally (fst ?run) = card (b_id ` set (fetchedBookmarks twoRecords))"
    using T r failing_run(3) e by blast
  show ?thesis using a b failing_run failing_run_timestamp by blast
qed

end
